theory Spec2Isabelle
  imports Complex_Main
begin

chapter \<open>The embedding\<close>

section \<open>Data model (src/types/game.ts)\<close>

text \<open>
  JavaScript numbers are modelled as mathematical reals: the rounding, the infinities and the
  NaN of IEEE arithmetic are outside the model, except where the source produces
  \<^verbatim>\<open>Infinity\<close> itself, which is then written out as \<open>None\<close>.

  The fields \<^verbatim>\<open>x\<close>, \<^verbatim>\<open>y\<close> of a point are \<open>px\<close>, \<open>py\<close> here, the field \<^verbatim>\<open>range\<close> of a
  sensor is \<open>rng\<close> and the field \<^verbatim>\<open>id\<close> of an enemy is \<open>enemy_id\<close> (\<open>range\<close> and \<open>id\<close> are
  constants of HOL).
\<close>

record Point =
  px :: real
  py :: real

record SensorConfig =
  arc :: real
  rng :: real
  offset :: real

text \<open>The constant table \<^verbatim>\<open>SENSOR_CONSTRAINTS\<close>.\<close>

definition maxSensors :: nat where "maxSensors = 8"
definition maxArc :: real where "maxArc = 120"
definition maxRange :: real where "maxRange = 400"
definition minArc :: real where "minArc = 10"
definition minRange :: real where "minRange = 50"

record TankStats =
  maxHealth :: real
  moveSpeed :: real
  turnSpeed :: real
  turretTurnSpeed :: real
  fireRate :: real
  projectileSpeed :: real
  projectileDamage :: real
  gunRange :: real
  defaultSensors :: "SensorConfig list"

record EnemyInfo =
  enemy_id :: string
  position :: Point
  heading :: real
  turretHeading :: real
  velocity :: Point
  health :: real
  distance :: real
  bearing :: real

definition DEFAULT_TANK_STATS :: TankStats where
  "DEFAULT_TANK_STATS =
     \<lparr> maxHealth = 100, moveSpeed = 150, turnSpeed = 2, turretTurnSpeed = 3, fireRate = 2,
       projectileSpeed = 400, projectileDamage = 15, gunRange = 350,
       defaultSensors =
         [\<lparr> arc = 90, rng = 400, offset = 0 \<rparr>,
          \<lparr> arc = 120, rng = 250, offset = - 90 \<rparr>,
          \<lparr> arc = 120, rng = 250, offset = 90 \<rparr>,
          \<lparr> arc = 90, rng = 150, offset = 180 \<rparr>] \<rparr>"

section \<open>The agent (src/entities/Tank.ts)\<close>

text \<open>
  The fields of \<^verbatim>\<open>Tank\<close> that its methods read or write. \<open>pos_x\<close>, \<open>pos_y\<close>, \<open>rotation\<close>
  (radians) and \<open>active\<close> are the sprite's \<^verbatim>\<open>x\<close>, \<^verbatim>\<open>y\<close>, \<^verbatim>\<open>rotation\<close> and \<^verbatim>\<open>active\<close>;
  \<open>has_body\<close> says that the sprite has its physics body; \<open>turret_rotation\<close> is
  \<^verbatim>\<open>turret.rotation\<close>.
\<close>

record Tank =
  tankId :: string
  stats :: TankStats
  pos_x :: real
  pos_y :: real
  rotation :: real
  active :: bool
  has_body :: bool
  turret_rotation :: real
  currentHealth :: real
  lastFireTime :: real
  targetTurretAngle :: real
  moveInput :: real
  turnInput :: real
  wantsFire :: bool
  sensors :: "SensorConfig list"
  arenaWidth :: real
  arenaHeight :: real

text \<open>
  Of the engine's library: \<^verbatim>\<open>Phaser.Math.Clamp(value, min, max)\<close> is
  \<^verbatim>\<open>Math.max(min, Math.min(max, value))\<close>, \<^verbatim>\<open>RadToDeg\<close> and \<^verbatim>\<open>DegToRad\<close> multiply by
  \<open>180 / \<pi>\<close> and \<open>\<pi> / 180\<close>, and \<^verbatim>\<open>Angle.Between(x1, y1, x2, y2)\<close> is
  \<^verbatim>\<open>Math.atan2(y2 - y1, x2 - x1)\<close>.
\<close>

definition Clamp :: "real \<Rightarrow> real \<Rightarrow> real \<Rightarrow> real" where
  "Clamp v lo hi = max lo (min hi v)"

definition RadToDeg :: "real \<Rightarrow> real" where
  "RadToDeg r = r * (180 / pi)"

definition DegToRad :: "real \<Rightarrow> real" where
  "DegToRad d = d * (pi / 180)"

text \<open>\<^verbatim>\<open>Math.atan2(dy, dx)\<close>, with its value in \<open>(-\<pi>, \<pi>]\<close>.\<close>

definition atan2 :: "real \<Rightarrow> real \<Rightarrow> real" where
  "atan2 dy dx =
     (if dx > 0 then arctan (dy / dx)
      else if dx < 0 then (if dy \<ge> 0 then arctan (dy / dx) + pi else arctan (dy / dx) - pi)
      else if dy > 0 then pi / 2
      else if dy < 0 then - (pi / 2)
      else 0)"

definition move :: "Tank \<Rightarrow> real \<Rightarrow> Tank" where
  "move t speed = t\<lparr>moveInput := Clamp speed (- 1) 1\<rparr>"

definition turn :: "Tank \<Rightarrow> real \<Rightarrow> Tank" where
  "turn t rate = t\<lparr>turnInput := Clamp rate (- 1) 1\<rparr>"

definition aimAt :: "Tank \<Rightarrow> Point \<Rightarrow> Tank" where
  "aimAt t point = t\<lparr>targetTurretAngle := atan2 (py point - pos_y t) (px point - pos_x t)\<rparr>"

text \<open>
  \<^verbatim>\<open>fire\<close> and \<^verbatim>\<open>canFire\<close> read the scene clock \<^verbatim>\<open>this.scene.time.now\<close>, here the
  argument \<open>now\<close>. \<^verbatim>\<open>1000 / fireRate\<close> is \<^verbatim>\<open>Infinity\<close> for a fire rate of zero, and no finite
  difference reaches it.
\<close>

definition canFire :: "real \<Rightarrow> Tank \<Rightarrow> bool" where
  "canFire now t =
     (if fireRate (stats t) = 0 then False
      else now - lastFireTime t \<ge> 1000 / fireRate (stats t))"

definition fire :: "real \<Rightarrow> Tank \<Rightarrow> bool \<times> Tank" where
  "fire now t =
     (if canFire now t then (True, t\<lparr>lastFireTime := now, wantsFire := True\<rparr>)
      else (False, t))"

definition getPosition :: "Tank \<Rightarrow> Point" where
  "getPosition t = \<lparr> px = pos_x t, py = pos_y t \<rparr>"

definition getHealth :: "Tank \<Rightarrow> real" where
  "getHealth t = currentHealth t"

definition getHeading :: "Tank \<Rightarrow> real" where
  "getHeading t = RadToDeg (rotation t)"

definition getTurretHeading :: "Tank \<Rightarrow> real" where
  "getTurretHeading t = RadToDeg (turret_rotation t)"

definition getGunRange :: "Tank \<Rightarrow> real" where
  "getGunRange t = gunRange (stats t)"

definition isDead :: "Tank \<Rightarrow> bool" where
  "isDead t \<longleftrightarrow> currentHealth t \<le> 0"

definition clampConfig :: "SensorConfig \<Rightarrow> SensorConfig" where
  "clampConfig config =
     \<lparr> arc = Clamp (arc config) minArc maxArc,
       rng = Clamp (rng config) minRange maxRange,
       offset = offset config \<rparr>"

text \<open>
  \<^verbatim>\<open>Tank.configureSensors\<close>: the pair is the method's result and the agent after the call.
\<close>

definition configureSensors :: "Tank \<Rightarrow> SensorConfig list \<Rightarrow> bool \<times> Tank" where
  "configureSensors t configs =
     (if length configs = 0 \<or> length configs > maxSensors then (False, t)
      else (True, t\<lparr>sensors := map clampConfig configs\<rparr>))"

definition getSensorCount :: "Tank \<Rightarrow> nat" where
  "getSensorCount t = length (sensors t)"

text \<open>
  The two normalisation loops of \<^verbatim>\<open>isPointInSensorIndex\<close>:
  \<^verbatim>\<open>while (angleDiff > 180) angleDiff -= 360\<close> and
  \<^verbatim>\<open>while (angleDiff < -180) angleDiff += 360\<close>.
\<close>

function wrapDown :: "real \<Rightarrow> real" where
  "wrapDown a = (if a > 180 then wrapDown (a - 360) else a)"
  by pat_completeness auto
termination
proof (relation "measure (\<lambda>a. nat \<lceil>a\<rceil>)")
  fix a :: real
  assume "180 < a"
  then have "\<lceil>a - 360\<rceil> < \<lceil>a\<rceil>" "0 < \<lceil>a\<rceil>" by linarith+
  then show "(a - 360, a) \<in> measure (\<lambda>a. nat \<lceil>a\<rceil>)" by simp
qed simp

function wrapUp :: "real \<Rightarrow> real" where
  "wrapUp a = (if a < - 180 then wrapUp (a + 360) else a)"
  by pat_completeness auto
termination
proof (relation "measure (\<lambda>a. nat \<lceil>- a\<rceil>)")
  fix a :: real
  assume "a < - 180"
  then have "\<lceil>- (a + 360)\<rceil> < \<lceil>- a\<rceil>" "0 < \<lceil>- a\<rceil>" by linarith+
  then show "(a + 360, a) \<in> measure (\<lambda>a. nat \<lceil>- a\<rceil>)" by simp
qed simp

declare wrapDown.simps [simp del] wrapUp.simps [simp del]

text \<open>
  The sensor index is an integer here; the source compares it with the bounds and then
  reads \<^verbatim>\<open>this.sensors[sensorIndex]\<close>.
\<close>

definition isPointInSensorIndex :: "Tank \<Rightarrow> Point \<Rightarrow> int \<Rightarrow> bool" where
  "isPointInSensorIndex t point sensorIndex =
     (if sensorIndex < 0 \<or> sensorIndex \<ge> int (length (sensors t)) then False
      else
        let sensorConfig = sensors t ! nat sensorIndex;
            dx = px point - pos_x t;
            dy = py point - pos_y t;
            distance = sqrt (dx * dx + dy * dy)
        in if distance > rng sensorConfig then False
           else
             let angleToPoint = RadToDeg (atan2 dy dx);
                 tankHeadingDeg = RadToDeg (rotation t);
                 sensorCenterAngle = tankHeadingDeg + offset sensorConfig;
                 angleDiff = wrapUp (wrapDown (angleToPoint - sensorCenterAngle));
                 halfArc = arc sensorConfig / 2
             in \<bar>angleDiff\<bar> \<le> halfArc)"

definition isPointDetectable :: "Tank \<Rightarrow> Point \<Rightarrow> bool" where
  "isPointDetectable t point =
     list_ex (\<lambda>i. isPointInSensorIndex t point (int i)) [0..<length (sensors t)]"

definition isCollidingWithWall :: "Tank \<Rightarrow> bool" where
  "isCollidingWithWall t = False"

definition getWallCollisionSides :: "Tank \<Rightarrow> string list" where
  "getWallCollisionSides t = []"

text \<open>
  \<^verbatim>\<open>getWallDistance\<close> starts from \<^verbatim>\<open>Infinity\<close> and may return it: \<open>None\<close> is
  \<^verbatim>\<open>Infinity\<close>, \<open>inf_min\<close> is \<^verbatim>\<open>Math.min\<close> with such a first argument.
\<close>

definition inf_min :: "real option \<Rightarrow> real \<Rightarrow> real option" where
  "inf_min m v = (case m of None \<Rightarrow> Some v | Some w \<Rightarrow> Some (min w v))"

definition getWallDistance :: "Tank \<Rightarrow> real \<Rightarrow> real option" where
  "getWallDistance t angleOffset =
     (let tankHeadingRad = rotation t;
          rayAngle = tankHeadingRad + DegToRad angleOffset;
          cosA = cos rayAngle;
          sinA = sin rayAngle;
          minDist0 = None;
          minDist1 =
            (if \<bar>cosA\<bar> > 0.001 then
               (if cosA > 0 then inf_min minDist0 ((arenaWidth t - pos_x t) / cosA)
                else inf_min minDist0 (- pos_x t / cosA))
             else minDist0);
          minDist2 =
            (if \<bar>sinA\<bar> > 0.001 then
               (if sinA > 0 then inf_min minDist1 ((arenaHeight t - pos_y t) / sinA)
                else inf_min minDist1 (- pos_y t / sinA))
             else minDist1)
      in case minDist2 of
           None \<Rightarrow> None
         | Some m \<Rightarrow> if m > 0 then Some m else None)"

text \<open>The result of \<^verbatim>\<open>scanWallInSensor\<close> is the pair of \<^verbatim>\<open>distance\<close> and \<^verbatim>\<open>angle\<close>.\<close>

definition scanWallInSensor :: "Tank \<Rightarrow> int \<Rightarrow> (real \<times> real) option" where
  "scanWallInSensor t sensorIndex =
     (if sensorIndex < 0 \<or> sensorIndex \<ge> int (length (sensors t)) then None
      else
        let sensor = sensors t ! nat sensorIndex;
            tankHeadingDeg = RadToDeg (rotation t);
            sensorCenterAngle = offset sensor;
            distance = getWallDistance t sensorCenterAngle
        in case distance of
             None \<Rightarrow> None
           | Some d \<Rightarrow>
               if d \<le> rng sensor then Some (d, tankHeadingDeg + sensorCenterAngle)
               else None)"

definition getArenaBounds :: "Tank \<Rightarrow> real \<times> real" where
  "getArenaBounds t = (arenaWidth t, arenaHeight t)"

subsection \<open>The cone membership test in the specification's words\<close>

text \<open>
  These definitions follow the specification, not the source; the source's test is
  \<open>isPointInSensorIndex\<close>. \<open>normalize_spec d\<close> is the representative of \<open>d\<close> modulo 360 in
  \<open>(-180, 180]\<close>, \<open>bearing_spec\<close> the bearing from the observer to the target in degrees.
\<close>

definition normalize_spec :: "real \<Rightarrow> real" where
  "normalize_spec d = d - 360 * of_int \<lceil>(d - 180) / 360\<rceil>"

definition distance_spec :: "Tank \<Rightarrow> Point \<Rightarrow> real" where
  "distance_spec t p = sqrt ((px p - pos_x t)\<^sup>2 + (py p - pos_y t)\<^sup>2)"

definition bearing_spec :: "Tank \<Rightarrow> Point \<Rightarrow> real" where
  "bearing_spec t p = RadToDeg (atan2 (py p - pos_y t) (px p - pos_x t))"

definition cone_member_spec :: "SensorConfig \<Rightarrow> Tank \<Rightarrow> Point \<Rightarrow> bool" where
  "cone_member_spec s t p \<longleftrightarrow>
     distance_spec t p \<le> rng s \<and>
     \<bar>normalize_spec (bearing_spec t p - (getHeading t + offset s))\<bar> \<le> arc s / 2"

text \<open>
  The point at distance \<open>d\<close> and bearing \<open>b\<close> (degrees) from the agent, and the observer of
  the specification's scenario: heading 0 and the single sensor \<open>{arc: 90, range: 400, offset: 0}\<close>,
  at any position.
\<close>

definition polar :: "Tank \<Rightarrow> real \<Rightarrow> real \<Rightarrow> Point" where
  "polar t d b =
     \<lparr> px = pos_x t + d * cos (b * pi / 180), py = pos_y t + d * sin (b * pi / 180) \<rparr>"

definition scenario_tank :: "real \<Rightarrow> real \<Rightarrow> Tank" where
  "scenario_tank ox oy =
     \<lparr> tankId = ''tank-0'', stats = DEFAULT_TANK_STATS, pos_x = ox, pos_y = oy, rotation = 0,
       active = True, has_body = True, turret_rotation = 0, currentHealth = 100, lastFireTime = 0,
       targetTurretAngle = 0, moveInput = 0, turnInput = 0, wantsFire = False,
       sensors = [\<lparr> arc = 90, rng = 400, offset = 0 \<rparr>],
       arenaWidth = 1200, arenaHeight = 800 \<rparr>"

section \<open>Strings of the host\<close>

text \<open>
  A string is the list of its code units, each below 256; the code units of the source's
  patterns are all ASCII. \<open>show_nat\<close> and \<open>show_int\<close> are the decimal rendering of an
  integer in a template literal.
\<close>

definition digit :: "nat \<Rightarrow> char" where
  "digit d = ''0123456789'' ! d"

fun show_nat :: "nat \<Rightarrow> string" where
  "show_nat n = (if n < 10 then [digit n] else show_nat (n div 10) @ [digit (n mod 10)])"

declare show_nat.simps [simp del]

definition show_int :: "int \<Rightarrow> string" where
  "show_int i = (if i < 0 then CHR ''-'' # show_nat (nat (- i)) else show_nat (nat i))"

definition newline :: string where
  "newline = [CHR 0x0A]"

text \<open>
  \<open>is_space\<close> is the class \<^verbatim>\<open>\s\<close> of a regular expression and the white space that \<^verbatim>\<open>trim\<close>
  removes: tab, line feed, vertical tab, form feed, carriage return, space and no-break space.
  \<open>is_word\<close> is the class \<^verbatim>\<open>\w\<close>. \<open>fold_case\<close> is the code unit that the flag \<^verbatim>\<open>i\<close>
  compares.
\<close>

definition is_space :: "char \<Rightarrow> bool" where
  "is_space c \<longleftrightarrow>
     c = CHR 0x09 \<or> c = CHR 0x0A \<or> c = CHR 0x0B \<or> c = CHR 0x0C \<or> c = CHR 0x0D \<or>
     c = CHR 0x20 \<or> c = CHR 0xA0"

definition is_digit :: "char \<Rightarrow> bool" where
  "is_digit c \<longleftrightarrow> 48 \<le> (of_char c :: nat) \<and> (of_char c :: nat) \<le> 57"

definition is_upper :: "char \<Rightarrow> bool" where
  "is_upper c \<longleftrightarrow> 65 \<le> (of_char c :: nat) \<and> (of_char c :: nat) \<le> 90"

definition is_lower :: "char \<Rightarrow> bool" where
  "is_lower c \<longleftrightarrow> 97 \<le> (of_char c :: nat) \<and> (of_char c :: nat) \<le> 122"

definition is_word :: "char \<Rightarrow> bool" where
  "is_word c \<longleftrightarrow> is_upper c \<or> is_lower c \<or> is_digit c \<or> c = CHR ''_''"

definition fold_case :: "char \<Rightarrow> nat" where
  "fold_case c = (if is_upper c then of_char c + 32 else of_char c)"

definition trimStart :: "string \<Rightarrow> string" where
  "trimStart s = dropWhile is_space s"

definition trimEnd :: "string \<Rightarrow> string" where
  "trimEnd s = rev (dropWhile is_space (rev s))"

definition trim :: "string \<Rightarrow> string" where
  "trim s = trimEnd (trimStart s)"

text \<open>\<^verbatim>\<open>split('\n')\<close>, \<^verbatim>\<open>join\<close>, \<^verbatim>\<open>startsWith\<close>, \<^verbatim>\<open>endsWith\<close> and \<^verbatim>\<open>includes\<close>.\<close>

fun split_lines :: "string \<Rightarrow> string list" where
  "split_lines [] = [[]]"
| "split_lines (c # cs) =
     (if c = CHR 0x0A then [] # split_lines cs
      else (case split_lines cs of
              [] \<Rightarrow> [[c]]
            | line # lines \<Rightarrow> (c # line) # lines))"

fun join :: "string \<Rightarrow> string list \<Rightarrow> string" where
  "join sep [] = []"
| "join sep [s] = s"
| "join sep (s # t # ss) = s @ sep @ join sep (t # ss)"

definition startsWith :: "string \<Rightarrow> string \<Rightarrow> bool" where
  "startsWith s p \<longleftrightarrow> take (length p) s = p"

definition endsWith :: "string \<Rightarrow> string \<Rightarrow> bool" where
  "endsWith s p \<longleftrightarrow> length p \<le> length s \<and> drop (length s - length p) s = p"

fun includes_str :: "string \<Rightarrow> string \<Rightarrow> bool" where
  "includes_str [] sub = (sub = [])"
| "includes_str (c # cs) sub = (startsWith (c # cs) sub \<or> includes_str cs sub)"

subsection \<open>Regular expressions\<close>

text \<open>
  A regular expression is matched by backtracking. A cursor is a position in the input: the
  code unit before it (none at the start) and the rest of the input. A pattern maps the
  cursor where a match is tried to the cursors where the match can end, in the order in
  which backtracking tries them, so the first of them that lets the rest of the expression
  match gives the match. \<open>rx_star\<close> and \<open>rx_plus\<close> are the greedy \<^verbatim>\<open>*\<close> and \<^verbatim>\<open>+\<close> of a
  character class, \<open>rx_opt\<close> is \<^verbatim>\<open>?\<close>, \<open>rx_alts\<close> is \<^verbatim>\<open>|\<close>, \<open>rx_wordb\<close> is \<^verbatim>\<open>\b\<close>, \<open>rx_eos\<close>
  is \<^verbatim>\<open>$\<close>, \<open>rx_lit_i\<close> a literal under the flag \<^verbatim>\<open>i\<close>.
\<close>

type_synonym cursor = "char option \<times> string"
type_synonym rx = "cursor \<Rightarrow> cursor list"

fun rx_lit :: "string \<Rightarrow> rx" where
  "rx_lit [] c = [c]"
| "rx_lit (a # as) (p, []) = []"
| "rx_lit (a # as) (p, b # bs) = (if a = b then rx_lit as (Some b, bs) else [])"

fun rx_lit_i :: "string \<Rightarrow> rx" where
  "rx_lit_i [] c = [c]"
| "rx_lit_i (a # as) (p, []) = []"
| "rx_lit_i (a # as) (p, b # bs) =
     (if fold_case a = fold_case b then rx_lit_i as (Some b, bs) else [])"

fun rx_cls :: "(char \<Rightarrow> bool) \<Rightarrow> rx" where
  "rx_cls P (p, []) = []"
| "rx_cls P (p, b # bs) = (if P b then [(Some b, bs)] else [])"

fun rx_star :: "(char \<Rightarrow> bool) \<Rightarrow> rx" where
  "rx_star P (p, []) = [(p, [])]"
| "rx_star P (p, b # bs) = (if P b then rx_star P (Some b, bs) @ [(p, b # bs)] else [(p, b # bs)])"

definition rx_then :: "rx \<Rightarrow> rx \<Rightarrow> rx" where
  "rx_then r1 r2 c = concat (map r2 (r1 c))"

definition rx_plus :: "(char \<Rightarrow> bool) \<Rightarrow> rx" where
  "rx_plus P = rx_then (rx_cls P) (rx_star P)"

definition rx_opt :: "rx \<Rightarrow> rx" where
  "rx_opt r c = r c @ [c]"

definition rx_eps :: rx where
  "rx_eps c = [c]"

definition rx_fail :: rx where
  "rx_fail c = []"

definition rx_seqs :: "rx list \<Rightarrow> rx" where
  "rx_seqs rs = foldr rx_then rs rx_eps"

definition rx_alts :: "rx list \<Rightarrow> rx" where
  "rx_alts rs c = concat (map (\<lambda>r. r c) rs)"

definition is_word_opt :: "char option \<Rightarrow> bool" where
  "is_word_opt p = (case p of None \<Rightarrow> False | Some c \<Rightarrow> is_word c)"

definition rx_wordb :: rx where
  "rx_wordb c = (if is_word_opt (fst c) \<noteq> is_word_opt (case snd c of [] \<Rightarrow> None | b # bs \<Rightarrow> Some b)
                 then [c] else [])"

definition rx_eos :: rx where
  "rx_eos c = (if snd c = [] then [c] else [])"

text \<open>
  \<open>consumed c1 c2\<close> is the text between two cursors (a capture group). \<open>rx_test\<close> is
  \<^verbatim>\<open>RegExp.prototype.test\<close> without the flag \<^verbatim>\<open>g\<close>: a match at some position.
  \<open>rx_replace r rep g s\<close> is \<^verbatim>\<open>s.replace(r, rep)\<close> for a constant \<open>rep\<close>: the match at the
  leftmost position is replaced and, under the flag \<open>g\<close>, the search goes on behind it
  (\<open>skip\<close> counts the code units of the match still to pass; behind an empty match it
  advances by one). \<open>rx_replace_start\<close> is the same for an expression anchored by \<^verbatim>\<open>^\<close>.
\<close>

definition rx_first :: "rx \<Rightarrow> cursor \<Rightarrow> cursor option" where
  "rx_first r c = (case r c of [] \<Rightarrow> None | c' # cs \<Rightarrow> Some c')"

definition consumed :: "cursor \<Rightarrow> cursor \<Rightarrow> string" where
  "consumed c1 c2 = take (length (snd c1) - length (snd c2)) (snd c1)"

fun rx_test_from :: "rx \<Rightarrow> char option \<Rightarrow> string \<Rightarrow> bool" where
  "rx_test_from r p [] = (r (p, []) \<noteq> [])"
| "rx_test_from r p (b # bs) = (r (p, b # bs) \<noteq> [] \<or> rx_test_from r (Some b) bs)"

definition rx_test :: "rx \<Rightarrow> string \<Rightarrow> bool" where
  "rx_test r s = rx_test_from r None s"

fun rx_replace_from :: "rx \<Rightarrow> string \<Rightarrow> bool \<Rightarrow> nat \<Rightarrow> char option \<Rightarrow> string \<Rightarrow> string" where
  "rx_replace_from r rep g skip p [] = (if skip = 0 \<and> r (p, []) \<noteq> [] then rep else [])"
| "rx_replace_from r rep g (Suc k) p (b # bs) = rx_replace_from r rep g k (Some b) bs"
| "rx_replace_from r rep g 0 p (b # bs) =
     (case r (p, b # bs) of
        [] \<Rightarrow> b # rx_replace_from r rep g 0 (Some b) bs
      | c # cs \<Rightarrow>
          if \<not> g then rep @ snd c
          else if length (snd c) = length (b # bs) then rep @ b # rx_replace_from r rep g 0 (Some b) bs
          else rep @ rx_replace_from r rep g (length (b # bs) - length (snd c) - 1) (Some b) bs)"

definition rx_replace :: "rx \<Rightarrow> string \<Rightarrow> bool \<Rightarrow> string \<Rightarrow> string" where
  "rx_replace r rep g s = rx_replace_from r rep g 0 None s"

definition rx_replace_start :: "rx \<Rightarrow> string \<Rightarrow> string \<Rightarrow> string" where
  "rx_replace_start r rep s = (case r (None, s) of [] \<Rightarrow> s | c # cs \<Rightarrow> rep @ snd c)"

section \<open>The capability sandbox (src/sandbox/TankBrain.ts)\<close>

subsection \<open>Trace entries and the rendering of values\<close>

text \<open>
  The rendering of a number that is not known to be an integer is the host's:
  \<^verbatim>\<open>Number.prototype.toFixed\<close> and \<^verbatim>\<open>String(number)\<close> are parameters of the model.
\<close>

record Host =
  toFixed :: "real \<Rightarrow> nat \<Rightarrow> string"
  numToString :: "real \<Rightarrow> string"

datatype TraceType = T_sensor | T_action | T_utility | T_config

text \<open>
  \<^verbatim>\<open>TraceEntry\<close>: the fields \<^verbatim>\<open>method\<close>, \<^verbatim>\<open>args\<close>, \<^verbatim>\<open>result\<close> and \<^verbatim>\<open>type\<close>; \<open>None\<close> is
  \<^verbatim>\<open>undefined\<close>.
\<close>

record TraceEntry =
  t_method :: string
  t_type :: TraceType
  t_args :: "string option"
  t_result :: "string option"

text \<open>The values that cross the sandbox: the results of its operations.\<close>

datatype Value =
    VPoint Point
  | VNum real
  | VInfinity
  | VBool bool
  | VEnemy "EnemyInfo option"
  | VEnemies "EnemyInfo list"
  | VConstraints nat real real real real
  | VBounds real real
  | VSides "string list"
  | VWall "(real \<times> real) option"
  | VUndefined

text \<open>
  The state an operation of the sandbox works on: the agent (\<^verbatim>\<open>this.tank\<close>) and the trace
  list (\<^verbatim>\<open>this.lastTrace\<close>) of the brain that made the sandbox.
\<close>

record Sandbox =
  sb_tank :: Tank
  sb_trace :: "TraceEntry list"

definition trace :: "Sandbox \<Rightarrow> string \<Rightarrow> TraceType \<Rightarrow> string option \<Rightarrow> string option \<Rightarrow> Sandbox" where
  "trace sb m ty a r =
     sb\<lparr>sb_trace := sb_trace sb @ [\<lparr> t_method = m, t_type = ty, t_args = a, t_result = r \<rparr>]\<rparr>"

definition formatPoint :: "Host \<Rightarrow> Point \<Rightarrow> string" where
  "formatPoint h p = ''{x:'' @ toFixed h (px p) 0 @ '', y:'' @ toFixed h (py p) 0 @ ''}''"

text \<open>\<^verbatim>\<open>formatValue\<close>, in the order of its tests.\<close>

fun formatValue :: "Host \<Rightarrow> Value \<Rightarrow> string" where
  "formatValue h (VEnemy None) = ''null''"
| "formatValue h VUndefined = ''undefined''"
| "formatValue h (VNum n) = toFixed h n 0"
| "formatValue h VInfinity = ''Infinity''"
| "formatValue h (VBool b) = (if b then ''true'' else ''false'')"
| "formatValue h (VEnemies es) = ''['' @ show_nat (length es) @ '' items]''"
| "formatValue h (VSides ss) = ''['' @ show_nat (length ss) @ '' items]''"
| "formatValue h (VPoint p) = formatPoint h p"
| "formatValue h (VEnemy (Some e)) = ''Enemy('' @ enemy_id e @ '')''"
| "formatValue h (VWall None) = ''null''"
| "formatValue h v = ''{...}''"

definition degrees :: "string \<Rightarrow> string" where
  "degrees s = s @ [CHR 0xB0]"

subsection \<open>The operations of \<^verbatim>\<open>createTankAPI\<close>\<close>

text \<open>
  Each operation takes the sandbox state and returns its result with the state after the
  call. The arguments have their declared types, so the guards on the shape of an argument
  (\<^verbatim>\<open>Array.isArray(configs)\<close>, \<^verbatim>\<open>point && typeof point.x === 'number'\<close>, \<^verbatim>\<open>!point\<close>)
  pass. The methods of the agent do not throw in this model; what can throw inside an
  operation is the callback \<^verbatim>\<open>getEnemiesFn\<close>, whose outcome is the argument \<open>enemies\<close>:
  \<open>Inl\<close> is the exception, \<open>Inr\<close> the list it returns. A \<^verbatim>\<open>catch\<close> block returns its default
  and leaves the state as it is. The scene clock is the argument \<open>now\<close>.
\<close>

definition getPosition_api :: "Host \<Rightarrow> Sandbox \<Rightarrow> Value \<times> Sandbox" where
  "getPosition_api h sb =
     (let result = getPosition (sb_tank sb)
      in (VPoint result,
          trace sb ''getPosition()'' T_sensor None (Some (formatValue h (VPoint result)))))"

definition getHealth_api :: "Host \<Rightarrow> Sandbox \<Rightarrow> Value \<times> Sandbox" where
  "getHealth_api h sb =
     (let result = getHealth (sb_tank sb)
      in (VNum result, trace sb ''getHealth()'' T_sensor None (Some (numToString h result))))"

definition getHeading_api :: "Host \<Rightarrow> Sandbox \<Rightarrow> Value \<times> Sandbox" where
  "getHeading_api h sb =
     (let result = getHeading (sb_tank sb)
      in (VNum result,
          trace sb ''getHeading()'' T_sensor None (Some (degrees (toFixed h result 0)))))"

definition getTurretHeading_api :: "Host \<Rightarrow> Sandbox \<Rightarrow> Value \<times> Sandbox" where
  "getTurretHeading_api h sb =
     (let result = getTurretHeading (sb_tank sb)
      in (VNum result,
          trace sb ''getTurretHeading()'' T_sensor None (Some (degrees (toFixed h result 0)))))"

definition canFire_api :: "real \<Rightarrow> Sandbox \<Rightarrow> Value \<times> Sandbox" where
  "canFire_api now sb =
     (let result = canFire now (sb_tank sb)
      in (VBool result,
          trace sb ''canFire()'' T_sensor None (Some (if result then ''YES'' else ''NO''))))"

text \<open>
  \<^verbatim>\<open>detectable.sort((a, b) => a.distance - b.distance)\<close> is a stable sort by the field
  \<^verbatim>\<open>distance\<close>, as \<open>sort_key\<close> is.
\<close>

definition getNearestEnemy_api ::
  "Host \<Rightarrow> string + EnemyInfo list \<Rightarrow> Sandbox \<Rightarrow> Value \<times> Sandbox" where
  "getNearestEnemy_api h enemies sb =
     (case enemies of
        Inl e \<Rightarrow> (VEnemy None, sb)
      | Inr allEnemies \<Rightarrow>
          let detectable = filter (\<lambda>e. isPointDetectable (sb_tank sb) (position e)) allEnemies;
              sorted = sort_key distance detectable;
              result = (if length sorted > 0 then Some (sorted ! 0) else None)
          in (VEnemy result,
              trace sb ''getNearestEnemy()'' T_sensor None
                (Some (case result of
                         Some r \<Rightarrow> ''dist:'' @ toFixed h (distance r) 0
                       | None \<Rightarrow> ''null''))))"

definition getEnemies_api :: "string + EnemyInfo list \<Rightarrow> Sandbox \<Rightarrow> Value \<times> Sandbox" where
  "getEnemies_api enemies sb =
     (case enemies of
        Inl e \<Rightarrow> (VEnemies [], sb)
      | Inr result \<Rightarrow>
          (VEnemies result,
           trace sb ''getEnemies()'' T_sensor None
             (Some (''['' @ show_nat (length result) @ '']''))))"

definition configureSensors_api :: "SensorConfig list \<Rightarrow> Sandbox \<Rightarrow> Value \<times> Sandbox" where
  "configureSensors_api configs sb =
     (let (result, t') = configureSensors (sb_tank sb) configs
      in (VBool result,
          trace (sb\<lparr>sb_tank := t'\<rparr>) ''configureSensors()'' T_config
            (Some (''['' @ show_nat (length configs) @ '' sensors]''))
            (Some (if result then ''OK'' else ''FAIL''))))"

definition getSensorCount_api :: "Sandbox \<Rightarrow> Value \<times> Sandbox" where
  "getSensorCount_api sb =
     (let result = getSensorCount (sb_tank sb)
      in (VNum (real result),
          trace sb ''getSensorCount()'' T_sensor None (Some (show_nat result))))"

definition scan_api ::
  "string + EnemyInfo list \<Rightarrow> int \<Rightarrow> Sandbox \<Rightarrow> Value \<times> Sandbox" where
  "scan_api enemies sensorIndex sb =
     (case enemies of
        Inl e \<Rightarrow> (VEnemies [], sb)
      | Inr allEnemies \<Rightarrow>
          let result = sort_key distance
                (filter (\<lambda>e. isPointInSensorIndex (sb_tank sb) (position e) sensorIndex)
                   allEnemies)
          in (VEnemies result,
              trace sb (''scan('' @ show_int sensorIndex @ '')'') T_sensor None
                (Some (''['' @ show_nat (length result) @ '']''))))"

definition scanAll_api :: "string + EnemyInfo list \<Rightarrow> Sandbox \<Rightarrow> Value \<times> Sandbox" where
  "scanAll_api enemies sb =
     (case enemies of
        Inl e \<Rightarrow> (VEnemies [], sb)
      | Inr allEnemies \<Rightarrow>
          let result = sort_key distance
                (filter (\<lambda>e. isPointDetectable (sb_tank sb) (position e)) allEnemies)
          in (VEnemies result,
              trace sb ''scanAll()'' T_sensor None
                (Some (''['' @ show_nat (length result) @ '']''))))"

definition getGunRange_api :: "Host \<Rightarrow> Sandbox \<Rightarrow> Value \<times> Sandbox" where
  "getGunRange_api h sb =
     (let result = getGunRange (sb_tank sb)
      in (VNum result, trace sb ''getGunRange()'' T_sensor None (Some (numToString h result))))"

definition getSensorConstraints_api :: "Sandbox \<Rightarrow> Value \<times> Sandbox" where
  "getSensorConstraints_api sb = (VConstraints maxSensors maxArc maxRange minArc minRange, sb)"

definition getArenaBounds_api :: "Sandbox \<Rightarrow> Value \<times> Sandbox" where
  "getArenaBounds_api sb =
     (case getArenaBounds (sb_tank sb) of (w, h) \<Rightarrow> (VBounds w h, sb))"

definition isCollidingWithWall_api :: "Sandbox \<Rightarrow> Value \<times> Sandbox" where
  "isCollidingWithWall_api sb =
     (let result = isCollidingWithWall (sb_tank sb)
      in (VBool result,
          trace sb ''isCollidingWithWall()'' T_sensor None
            (Some (if result then ''YES'' else ''NO''))))"

definition getWallCollisionSides_api :: "Sandbox \<Rightarrow> Value \<times> Sandbox" where
  "getWallCollisionSides_api sb =
     (let result = getWallCollisionSides (sb_tank sb)
      in (VSides result,
          trace sb ''getWallCollisionSides()'' T_sensor None
            (Some (if length result > 0 then join '','' result else ''none''))))"

definition getWallDistance_api :: "Host \<Rightarrow> real \<Rightarrow> Sandbox \<Rightarrow> Value \<times> Sandbox" where
  "getWallDistance_api h angleOffset sb =
     (let result = getWallDistance (sb_tank sb) angleOffset
      in (case result of None \<Rightarrow> VInfinity | Some d \<Rightarrow> VNum d,
          trace sb ''getWallDistance()'' T_sensor (Some (degrees (toFixed h angleOffset 0)))
            (Some (case result of None \<Rightarrow> ''Infinity'' | Some d \<Rightarrow> toFixed h d 0))))"

definition scanWall_api :: "Host \<Rightarrow> int \<Rightarrow> Sandbox \<Rightarrow> Value \<times> Sandbox" where
  "scanWall_api h sensorIndex sb =
     (let result = scanWallInSensor (sb_tank sb) sensorIndex
      in (VWall result,
          trace sb (''scanWall('' @ show_int sensorIndex @ '')'') T_sensor None
            (Some (case result of
                     Some r \<Rightarrow> ''dist:'' @ toFixed h (fst r) 0
                   | None \<Rightarrow> ''null''))))"

definition move_api :: "Host \<Rightarrow> real \<Rightarrow> Sandbox \<Rightarrow> Value \<times> Sandbox" where
  "move_api h speed sb =
     (VUndefined,
      trace (sb\<lparr>sb_tank := move (sb_tank sb) speed\<rparr>) ''move()'' T_action
        (Some (toFixed h speed 2)) None)"

definition turn_api :: "Host \<Rightarrow> real \<Rightarrow> Sandbox \<Rightarrow> Value \<times> Sandbox" where
  "turn_api h rate sb =
     (VUndefined,
      trace (sb\<lparr>sb_tank := turn (sb_tank sb) rate\<rparr>) ''turn()'' T_action
        (Some (toFixed h rate 2)) None)"

definition aimAt_api :: "Host \<Rightarrow> Point \<Rightarrow> Sandbox \<Rightarrow> Value \<times> Sandbox" where
  "aimAt_api h point sb =
     (VUndefined,
      trace (sb\<lparr>sb_tank := aimAt (sb_tank sb) point\<rparr>) ''aimAt()'' T_action
        (Some (formatValue h (VPoint point))) None)"

definition fire_api :: "real \<Rightarrow> Sandbox \<Rightarrow> Value \<times> Sandbox" where
  "fire_api now sb =
     (let (result, t') = fire now (sb_tank sb)
      in (VBool result,
          trace (sb\<lparr>sb_tank := t'\<rparr>) ''fire()'' T_action None
            (Some (if result then ''FIRED!'' else ''cooling''))))"

definition angleTo_api :: "Host \<Rightarrow> Point \<Rightarrow> Sandbox \<Rightarrow> Value \<times> Sandbox" where
  "angleTo_api h point sb =
     (let pos = getPosition (sb_tank sb);
          dx = px point - px pos;
          dy = py point - py pos;
          result = atan2 dy dx * (180 / pi)
      in (VNum result,
          trace sb ''angleTo()'' T_utility (Some (formatValue h (VPoint point)))
            (Some (degrees (toFixed h result 0)))))"

definition distanceTo_api :: "Host \<Rightarrow> Point \<Rightarrow> Sandbox \<Rightarrow> Value \<times> Sandbox" where
  "distanceTo_api h point sb =
     (let pos = getPosition (sb_tank sb);
          dx = px point - px pos;
          dy = py point - py pos;
          result = sqrt (dx * dx + dy * dy)
      in (VNum result,
          trace sb ''distanceTo()'' T_utility (Some (formatValue h (VPoint point)))
            (Some (toFixed h result 0))))"

text \<open>A call of an operation of the sandbox by a script, with its arguments.\<close>

datatype ApiCall =
    GetPosition | GetHealth | GetHeading | GetTurretHeading | CanFire | GetNearestEnemy
  | GetEnemies | ConfigureSensors "SensorConfig list" | GetSensorCount | Scan int | ScanAll
  | GetGunRange | GetSensorConstraints | GetArenaBounds | IsCollidingWithWall
  | GetWallCollisionSides | GetWallDistance real | ScanWall int | Move real | Turn real
  | AimAt Point | Fire | AngleTo Point | DistanceTo Point

fun callAPI ::
  "Host \<Rightarrow> real \<Rightarrow> string + EnemyInfo list \<Rightarrow> ApiCall \<Rightarrow> Sandbox \<Rightarrow> Value \<times> Sandbox" where
  "callAPI h now enemies GetPosition sb = getPosition_api h sb"
| "callAPI h now enemies GetHealth sb = getHealth_api h sb"
| "callAPI h now enemies GetHeading sb = getHeading_api h sb"
| "callAPI h now enemies GetTurretHeading sb = getTurretHeading_api h sb"
| "callAPI h now enemies CanFire sb = canFire_api now sb"
| "callAPI h now enemies GetNearestEnemy sb = getNearestEnemy_api h enemies sb"
| "callAPI h now enemies GetEnemies sb = getEnemies_api enemies sb"
| "callAPI h now enemies (ConfigureSensors configs) sb = configureSensors_api configs sb"
| "callAPI h now enemies GetSensorCount sb = getSensorCount_api sb"
| "callAPI h now enemies (Scan sensorIndex) sb = scan_api enemies sensorIndex sb"
| "callAPI h now enemies ScanAll sb = scanAll_api enemies sb"
| "callAPI h now enemies GetGunRange sb = getGunRange_api h sb"
| "callAPI h now enemies GetSensorConstraints sb = getSensorConstraints_api sb"
| "callAPI h now enemies GetArenaBounds sb = getArenaBounds_api sb"
| "callAPI h now enemies IsCollidingWithWall sb = isCollidingWithWall_api sb"
| "callAPI h now enemies GetWallCollisionSides sb = getWallCollisionSides_api sb"
| "callAPI h now enemies (GetWallDistance angleOffset) sb = getWallDistance_api h angleOffset sb"
| "callAPI h now enemies (ScanWall sensorIndex) sb = scanWall_api h sensorIndex sb"
| "callAPI h now enemies (Move speed) sb = move_api h speed sb"
| "callAPI h now enemies (Turn rate) sb = turn_api h rate sb"
| "callAPI h now enemies (AimAt point) sb = aimAt_api h point sb"
| "callAPI h now enemies Fire sb = fire_api now sb"
| "callAPI h now enemies (AngleTo point) sb = angleTo_api h point sb"
| "callAPI h now enemies (DistanceTo point) sb = distanceTo_api h point sb"

subsection \<open>Notions of the specification and inputs of the closed examples\<close>

text \<open>
  A point lies within at least one of the agent's configured sensor cones.
\<close>

definition in_some_cone :: "Tank \<Rightarrow> Point \<Rightarrow> bool" where
  "in_some_cone t p \<longleftrightarrow>
     (\<exists>i. 0 \<le> i \<and> i < int (length (sensors t)) \<and> isPointInSensorIndex t p i)"

text \<open>
  A host for the closed examples, which renders a number by the integer nearest to it; the
  theorems hold for every host. \<open>enemy_at d b\<close> is an enemy at distance \<open>d\<close> and bearing \<open>b\<close>
  from the observer of the scenario placed at the origin.
\<close>

definition example_host :: Host where
  "example_host = \<lparr> toFixed = (\<lambda>v d. show_int \<lfloor>v + 1 / 2\<rfloor>), numToString = (\<lambda>v. show_int \<lfloor>v + 1 / 2\<rfloor>) \<rparr>"

definition enemy_at :: "real \<Rightarrow> real \<Rightarrow> EnemyInfo" where
  "enemy_at d b =
     \<lparr> enemy_id = ''tank-1'', position = polar (scenario_tank 0 0) d b, heading = 0,
       turretHeading = 0, velocity = \<lparr> px = 0, py = 0 \<rparr>, health = 100, distance = d,
       bearing = b * pi / 180 \<rparr>"

definition example_sandbox :: Sandbox where
  "example_sandbox = \<lparr> sb_tank = scenario_tank 0 0, sb_trace = [] \<rparr>"



section \<open>The script execution unit (src/sandbox/TankBrain.ts)\<close>

text \<open>
  A compiled script is a JavaScript function of the sandbox. What the brain and the scene
  observe of one invocation is the sequence of operations it calls, each chosen from the
  results of the earlier ones, and how it ends: by returning or by throwing. \<open>Call c k\<close>
  calls the operation \<open>c\<close> and goes on as \<open>k v\<close> with its result \<open>v\<close>. An invocation that
  never ends is not a value of this type.
\<close>

datatype Script = Return | Throw string | Call ApiCall "Value \<Rightarrow> Script"

text \<open>
  \<open>run\<close> invokes a script on a sandbox: \<open>Some e\<close> is the exception \<open>e\<close> escaping the script,
  \<open>None\<close> its return. The callback \<^verbatim>\<open>getEnemiesFn\<close> reads the scene when an operation calls
  it: its outcome is a function of the agent as it is then.
\<close>

primrec run ::
  "Script \<Rightarrow> Host \<Rightarrow> real \<Rightarrow> (Tank \<Rightarrow> string + EnemyInfo list) \<Rightarrow> Sandbox
     \<Rightarrow> string option \<times> Sandbox" where
  "run Return = (\<lambda>h now getEnemiesFn sb. (None, sb))"
| "run (Throw e) = (\<lambda>h now getEnemiesFn sb. (Some e, sb))"
| "run (Call c k) = (\<lambda>h now getEnemiesFn sb.
     case callAPI h now (getEnemiesFn (sb_tank sb)) c sb of
       (v, sb') \<Rightarrow> run (k v) h now getEnemiesFn sb')"

text \<open>
  The fields of \<^verbatim>\<open>TankBrain\<close> (its \<^verbatim>\<open>code\<close> is \<open>brain_code\<close>), but for the agent and the
  callback, which are arguments of \<open>execute\<close>.
\<close>

record TankBrain =
  brain_code :: string
  compiledFunction :: "Script option"
  error :: "string option"
  lastTrace :: "TraceEntry list"

definition isValid :: "TankBrain \<Rightarrow> bool" where
  "isValid b \<longleftrightarrow> compiledFunction b \<noteq> None"

text \<open>
  \<^verbatim>\<open>execute\<close>, as a statement that can itself end in an exception: \<open>Inl e\<close> is the exception
  \<open>e\<close> propagating to the caller, \<open>Inr\<close> the brain, the agent and the console after a normal
  end. The \<^verbatim>\<open>try\<close> block is the invocation of the script, the \<^verbatim>\<open>catch\<close> block the
  \<^verbatim>\<open>console.warn\<close>.
\<close>

definition execute ::
  "Host \<Rightarrow> real \<Rightarrow> (Tank \<Rightarrow> string + EnemyInfo list) \<Rightarrow> TankBrain \<Rightarrow> Tank \<Rightarrow> string list
     \<Rightarrow> string + TankBrain \<times> Tank \<times> string list" where
  "execute h now getEnemiesFn b t console =
     (case compiledFunction b of
        None \<Rightarrow> Inr (b, t, console)
      | Some f \<Rightarrow>
          if \<not> active t \<or> isDead t then Inr (b, t, console)
          else
            let b1 = b\<lparr>lastTrace := []\<rparr>
            in case run f h now getEnemiesFn \<lparr> sb_tank = t, sb_trace = lastTrace b1 \<rparr> of
                 (None, sb) \<Rightarrow> Inr (b1\<lparr>lastTrace := sb_trace sb\<rparr>, sb_tank sb, console)
               | (Some e, sb) \<Rightarrow>
                   Inr (b1\<lparr>lastTrace := sb_trace sb\<rparr>, sb_tank sb,
                        console @ [''TankBrain execution error for '' @ tankId t @ '': '' @ e]))"

section \<open>The tick loop (src/scenes/BattleScene.ts, update)\<close>

text \<open>
  The scene: its tanks, the brains by tank id, the two flags and the console. A tank is
  referred to by its index in \<open>tanks\<close>. \<^verbatim>\<open>createTanks\<close> stores under a tank's id the brain
  made for that tank, so the brain found under the id of the tank of an iteration runs on
  that tank.
\<close>

record World =
  tanks :: "Tank list"
  tankBrains :: "string \<Rightarrow> TankBrain option"
  isGameOver :: bool
  isPaused :: bool
  console :: "string list"

text \<open>
  The parts of an iteration that belong to the engine are parameters: the host, the scene
  clock, \<^verbatim>\<open>getEnemiesFor\<close>, the built-in \<^verbatim>\<open>runTankAI\<close>, and \<open>physics\<close>, which stands for
  \<^verbatim>\<open>tank.update(delta)\<close>, \<^verbatim>\<open>wrapPosition\<close> and the hitscan of a shot.
\<close>

record Scene =
  host :: Host
  clock :: real
  getEnemiesFor :: "Tank list \<Rightarrow> nat \<Rightarrow> string + EnemyInfo list"
  runTankAI :: "nat \<Rightarrow> World \<Rightarrow> World"
  physics :: "nat \<Rightarrow> World \<Rightarrow> World"

definition brainExecute :: "Scene \<Rightarrow> nat \<Rightarrow> TankBrain \<Rightarrow> World \<Rightarrow> string + World" where
  "brainExecute sc i brain w =
     (let tank = tanks w ! i
      in case execute (host sc) (clock sc) (\<lambda>t'. getEnemiesFor sc ((tanks w)[i := t']) i)
                brain tank (console w) of
           Inl e \<Rightarrow> Inl e
         | Inr (brain', tank', console') \<Rightarrow>
             Inr (w\<lparr>tanks := (tanks w)[i := tank'],
                    tankBrains := (tankBrains w)(tankId tank \<mapsto> brain'),
                    console := console'\<rparr>))"

text \<open>The body of the loop over the active tanks; an exception ends the loop and \<open>update\<close>.\<close>

definition tankIteration :: "Scene \<Rightarrow> nat \<Rightarrow> World \<Rightarrow> string + World" where
  "tankIteration sc i w =
     (let tank = tanks w ! i;
          ai = (case tankBrains w (tankId tank) of
                  Some brain \<Rightarrow>
                    if isValid brain then brainExecute sc i brain w else Inr (runTankAI sc i w)
                | None \<Rightarrow> Inr (runTankAI sc i w))
      in case ai of
           Inl e \<Rightarrow> Inl e
         | Inr w' \<Rightarrow> Inr (physics sc i w'))"

fun tankLoop :: "Scene \<Rightarrow> nat list \<Rightarrow> World \<Rightarrow> string + World" where
  "tankLoop sc [] w = Inr w"
| "tankLoop sc (i # rest) w =
     (case tankIteration sc i w of
        Inl e \<Rightarrow> Inl e
      | Inr w' \<Rightarrow> tankLoop sc rest w')"

definition activeTanks :: "World \<Rightarrow> nat list" where
  "activeTanks w =
     filter (\<lambda>i. active (tanks w ! i) \<and> \<not> isDead (tanks w ! i) \<and> has_body (tanks w ! i))
       [0..<length (tanks w)]"

definition update :: "Scene \<Rightarrow> World \<Rightarrow> string + World" where
  "update sc w =
     (if isGameOver w \<or> isPaused w then Inr w
      else tankLoop sc (activeTanks w) w)"

subsection \<open>Inputs of the closed examples\<close>

text \<open>
  A scene of two tanks with a brain each. The script of the first calls \<^verbatim>\<open>tank.turn(1)\<close> and
  throws, at every invocation; the script of the second calls \<^verbatim>\<open>tank.move(1)\<close> and returns.
  The engine's parts of an iteration do nothing here.
\<close>

definition thrower :: Script where
  "thrower = Call (Turn 1) (\<lambda>v. Throw ''boom'')"

definition mover :: Script where
  "mover = Call (Move 1) (\<lambda>v. Return)"

definition tank_n :: "string \<Rightarrow> Tank" where
  "tank_n n = (scenario_tank 0 0)\<lparr>tankId := n\<rparr>"

definition brain_of :: "Script \<Rightarrow> TankBrain" where
  "brain_of s = \<lparr> brain_code = [], compiledFunction = Some s, error = None, lastTrace = [] \<rparr>"

definition example_world :: World where
  "example_world =
     \<lparr> tanks = [tank_n ''tank-0'', tank_n ''tank-1''],
       tankBrains = [''tank-0'' \<mapsto> brain_of thrower, ''tank-1'' \<mapsto> brain_of mover],
       isGameOver = False, isPaused = False, console = [] \<rparr>"

definition example_scene :: Scene where
  "example_scene =
     \<lparr> host = example_host, clock = 0, getEnemiesFor = (\<lambda>ts i. Inr []),
       runTankAI = (\<lambda>i w. w), physics = (\<lambda>i w. w) \<rparr>"

section \<open>Results of generation and validation (the llm types)\<close>

text \<open>
  The interfaces \<^verbatim>\<open>TankBehavior\<close>, \<^verbatim>\<open>GenerationResult\<close>, \<^verbatim>\<open>LLMResponse\<close> and
  \<^verbatim>\<open>ValidationResult\<close>, each field under the initial of its interface where its name is
  taken already; an optional field is an option, \<open>None\<close> when it is absent.
\<close>

record TankBehavior =
  b_code :: string
  b_strategy :: string
  b_isValid :: bool
  b_error :: "string option"

record GenerationResult =
  g_success :: bool
  g_behavior :: "TankBehavior option"
  g_error :: "string option"
  g_rawResponse :: "string option"

record LLMResponse =
  r_success :: bool
  r_content :: "string option"
  r_error :: "string option"

record ValidationResult =
  valid :: bool
  errors :: "string list"
  warnings :: "string list"

section \<open>The code validator (src/llm/CodeValidator.ts)\<close>

subsection \<open>Forbidden patterns and tank methods\<close>

text \<open>
  A pattern of \<^verbatim>\<open>FORBIDDEN_PATTERNS\<close> is the pair of its \<^verbatim>\<open>source\<close> text and the expression;
  \<open>bsl s\<close> is \<open>s\<close> behind a backslash.
\<close>

definition bsl :: "string \<Rightarrow> string" where
  "bsl s = CHR 0x5C # s"

definition FORBIDDEN_PATTERNS :: "(string \<times> rx) list" where
  "FORBIDDEN_PATTERNS =
     [(bsl ''beval'' @ bsl ''s*'' @ bsl ''('',
         rx_seqs [rx_wordb, rx_lit ''eval'', rx_star is_space, rx_lit ''('']),
      (bsl ''bFunction'' @ bsl ''s*'' @ bsl ''('',
         rx_seqs [rx_wordb, rx_lit ''Function'', rx_star is_space, rx_lit ''('']),
      (bsl ''bnew'' @ bsl ''s+Function'' @ bsl ''b'',
         rx_seqs [rx_wordb, rx_lit ''new'', rx_plus is_space, rx_lit ''Function'', rx_wordb]),
      (bsl ''bimport'' @ bsl ''s*'' @ bsl ''('',
         rx_seqs [rx_wordb, rx_lit ''import'', rx_star is_space, rx_lit ''('']),
      (bsl ''bimport'' @ bsl ''s+'',
         rx_seqs [rx_wordb, rx_lit ''import'', rx_plus is_space]),
      (bsl ''brequire'' @ bsl ''s*'' @ bsl ''('',
         rx_seqs [rx_wordb, rx_lit ''require'', rx_star is_space, rx_lit ''('']),
      (bsl ''bfetch'' @ bsl ''s*'' @ bsl ''('',
         rx_seqs [rx_wordb, rx_lit ''fetch'', rx_star is_space, rx_lit ''('']),
      (bsl ''bXMLHttpRequest'' @ bsl ''b'',
         rx_seqs [rx_wordb, rx_lit ''XMLHttpRequest'', rx_wordb]),
      (bsl ''bWebSocket'' @ bsl ''b'',
         rx_seqs [rx_wordb, rx_lit ''WebSocket'', rx_wordb]),
      (bsl ''bwindow'' @ bsl ''b'',
         rx_seqs [rx_wordb, rx_lit ''window'', rx_wordb]),
      (bsl ''bdocument'' @ bsl ''b'',
         rx_seqs [rx_wordb, rx_lit ''document'', rx_wordb]),
      (bsl ''bglobal'' @ bsl ''b'',
         rx_seqs [rx_wordb, rx_lit ''global'', rx_wordb]),
      (bsl ''bprocess'' @ bsl ''b'',
         rx_seqs [rx_wordb, rx_lit ''process'', rx_wordb]),
      (bsl ''b__dirname'' @ bsl ''b'',
         rx_seqs [rx_wordb, rx_lit ''__dirname'', rx_wordb]),
      (bsl ''b__filename'' @ bsl ''b'',
         rx_seqs [rx_wordb, rx_lit ''__filename'', rx_wordb]),
      (bsl ''bsetTimeout'' @ bsl ''b'',
         rx_seqs [rx_wordb, rx_lit ''setTimeout'', rx_wordb]),
      (bsl ''bsetInterval'' @ bsl ''b'',
         rx_seqs [rx_wordb, rx_lit ''setInterval'', rx_wordb]),
      (bsl ''bsetImmediate'' @ bsl ''b'',
         rx_seqs [rx_wordb, rx_lit ''setImmediate'', rx_wordb]),
      (bsl ''brequestAnimationFrame'' @ bsl ''b'',
         rx_seqs [rx_wordb, rx_lit ''requestAnimationFrame'', rx_wordb]),
      (bsl ''blocalStorage'' @ bsl ''b'',
         rx_seqs [rx_wordb, rx_lit ''localStorage'', rx_wordb]),
      (bsl ''bsessionStorage'' @ bsl ''b'',
         rx_seqs [rx_wordb, rx_lit ''sessionStorage'', rx_wordb]),
      (bsl ''bindexedDB'' @ bsl ''b'',
         rx_seqs [rx_wordb, rx_lit ''indexedDB'', rx_wordb]),
      (bsl ''bnavigator'' @ bsl ''b'',
         rx_seqs [rx_wordb, rx_lit ''navigator'', rx_wordb]),
      (bsl ''blocation'' @ bsl ''b'',
         rx_seqs [rx_wordb, rx_lit ''location'', rx_wordb]),
      (bsl ''bhistory'' @ bsl ''b'',
         rx_seqs [rx_wordb, rx_lit ''history'', rx_wordb]),
      (bsl ''balert'' @ bsl ''b'',
         rx_seqs [rx_wordb, rx_lit ''alert'', rx_wordb]),
      (bsl ''bconfirm'' @ bsl ''b'',
         rx_seqs [rx_wordb, rx_lit ''confirm'', rx_wordb]),
      (bsl ''bprompt'' @ bsl ''b'',
         rx_seqs [rx_wordb, rx_lit ''prompt'', rx_wordb]),
      (bsl ''.constructor'' @ bsl ''b'',
         rx_seqs [rx_lit ''.constructor'', rx_wordb]),
      (bsl ''.__proto__'' @ bsl ''b'',
         rx_seqs [rx_lit ''.__proto__'', rx_wordb]),
      (bsl ''bprototype'' @ bsl ''b'',
         rx_seqs [rx_wordb, rx_lit ''prototype'', rx_wordb]),
      (bsl ''bthis'' @ bsl ''b'',
         rx_seqs [rx_wordb, rx_lit ''this'', rx_wordb])]"

definition pattern_error :: "string \<times> rx \<Rightarrow> string" where
  "pattern_error pattern = ''Forbidden pattern detected: '' @ fst pattern"

definition checkForbiddenPatterns :: "string \<Rightarrow> string list" where
  "checkForbiddenPatterns code =
     map pattern_error (filter (\<lambda>pattern. rx_test (snd pattern) code) FORBIDDEN_PATTERNS)"

text \<open>
  \<^verbatim>\<open>validateTankMethods\<close>: the matches of \<^verbatim>\<open>/tank\.(\w+)\s*\(/g\<close> from left to right, each
  search starting behind the match before, and a warning for each method name outside
  \<^verbatim>\<open>ALLOWED_TANK_METHODS\<close>.
\<close>

definition ALLOWED_TANK_METHODS :: "string list" where
  "ALLOWED_TANK_METHODS =
     [''getPosition'', ''getHealth'', ''getHeading'', ''getTurretHeading'', ''canFire'',
      ''getNearestEnemy'', ''getEnemies'', ''configureSensors'', ''getSensorCount'',
      ''getSensorConstraints'', ''scan'', ''scanAll'', ''getGunRange'', ''getArenaBounds'',
      ''isCollidingWithWall'', ''getWallCollisionSides'', ''getWallDistance'', ''scanWall'',
      ''move'', ''turn'', ''aimAt'', ''fire'', ''angleTo'', ''distanceTo'']"

definition tankCall_match :: "cursor \<Rightarrow> (string \<times> cursor) option" where
  "tankCall_match c =
     (case concat (map (\<lambda>c1. concat (map (\<lambda>c2.
              map (\<lambda>c3. (consumed c1 c2, c3)) (rx_seqs [rx_star is_space, rx_lit ''(''] c2))
            (rx_plus is_word c1)))
          (rx_lit ''tank.'' c)) of
        [] \<Rightarrow> None
      | m # ms \<Rightarrow> Some m)"

fun tankMethodCalls :: "nat \<Rightarrow> char option \<Rightarrow> string \<Rightarrow> string list" where
  "tankMethodCalls skip p [] = []"
| "tankMethodCalls (Suc k) p (b # bs) = tankMethodCalls k (Some b) bs"
| "tankMethodCalls 0 p (b # bs) =
     (case tankCall_match (p, b # bs) of
        None \<Rightarrow> tankMethodCalls 0 (Some b) bs
      | Some (methodName, c) \<Rightarrow>
          methodName # tankMethodCalls (length (b # bs) - length (snd c) - 1) (Some b) bs)"

definition validateTankMethods :: "string \<Rightarrow> string list" where
  "validateTankMethods code =
     map (\<lambda>methodName. ''Unknown tank method: tank.'' @ methodName @ ''()'')
       (filter (\<lambda>methodName. methodName \<notin> set ALLOWED_TANK_METHODS) (tankMethodCalls 0 None code))"

subsection \<open>Loop guards\<close>

text \<open>
  \<open>loop_match kw\<close> is a match of \<^verbatim>\<open>/\bwhile\s*\(([^)]+)\)\s*\{/\<close> (or of the same with
  \<^verbatim>\<open>for\<close>) at a cursor, with the captured condition and the cursor behind the match.
  \<open>guardLoops\<close> is the \<^verbatim>\<open>replace\<close> with the flag \<^verbatim>\<open>g\<close> and the callback, which numbers the
  guards by \<^verbatim>\<open>guardCounter\<close>: it returns the new text and the counter.
\<close>

definition loop_match :: "string \<Rightarrow> cursor \<Rightarrow> (string \<times> cursor) option" where
  "loop_match kw c =
     (case concat (map (\<lambda>c1. concat (map (\<lambda>c2.
              map (\<lambda>c3. (consumed c1 c2, c3))
                (rx_seqs [rx_lit '')'', rx_star is_space, rx_lit ''{''] c2))
            (rx_plus (\<lambda>ch. ch \<noteq> CHR '')'') c1)))
          (rx_seqs [rx_wordb, rx_lit kw, rx_star is_space, rx_lit ''(''] c)) of
        [] \<Rightarrow> None
      | m # ms \<Rightarrow> Some m)"

definition LOOP_LIMIT :: nat where
  "LOOP_LIMIT = 100"

definition guardHeader :: "string \<Rightarrow> nat \<Rightarrow> string \<Rightarrow> string" where
  "guardHeader kw guardCounter condition =
     (let varName = ''__loopGuard'' @ show_nat guardCounter
      in ''{ let '' @ varName @ ''=0; '' @ kw @ '' ('' @ condition @ '') { if(++'' @ varName
         @ ''>'' @ show_nat LOOP_LIMIT @ '')break;'')"

fun guardLoops :: "string \<Rightarrow> nat \<Rightarrow> nat \<Rightarrow> char option \<Rightarrow> string \<Rightarrow> string \<times> nat" where
  "guardLoops kw skip guardCounter p [] = ([], guardCounter)"
| "guardLoops kw (Suc k) guardCounter p (b # bs) = guardLoops kw k guardCounter (Some b) bs"
| "guardLoops kw 0 guardCounter p (b # bs) =
     (case loop_match kw (p, b # bs) of
        None \<Rightarrow>
          (case guardLoops kw 0 guardCounter (Some b) bs of
             (out, n) \<Rightarrow> (b # out, n))
      | Some (condition, c) \<Rightarrow>
          (case guardLoops kw (length (b # bs) - length (snd c) - 1) (Suc guardCounter) (Some b) bs of
             (out, n) \<Rightarrow> (guardHeader kw guardCounter condition @ out, n)))"

definition injectLoopGuards :: "string \<Rightarrow> string" where
  "injectLoopGuards code =
     (case guardLoops ''while'' 0 0 None code of
        (code1, guardCounter1) \<Rightarrow>
          (case guardLoops ''for'' 0 guardCounter1 None code1 of
             (code2, guardCounter) \<Rightarrow> code2 @ concat (replicate guardCounter '' }'')))"

subsection \<open>The cleaner\<close>

text \<open>
  The scanner of \<^verbatim>\<open>stripComments\<close> as a machine over the text: in code (\<open>Code\<close>), in a
  string opened by the quote \<open>q\<close> (\<open>Str q\<close>), behind a backslash in such a string (\<open>Esc q\<close>),
  in a block comment (\<open>Block\<close>) and in a line comment (\<open>Line\<close>). The search for the end
  of a block comment stops one code unit before the end of the text, so the last code unit
  of a text that ends in an open block comment is scanned as code, and kept.
\<close>

datatype scan_mode = Code | Str char | Esc char | Block | Line

fun scanComments :: "scan_mode \<Rightarrow> string \<Rightarrow> string" where
  "scanComments m [] = []"
| "scanComments (Esc q) (c # cs) = c # scanComments (Str q) cs"
| "scanComments (Str q) (c # cs) =
     (if c = CHR 0x5C then c # scanComments (Esc q) cs
      else if c = q then c # scanComments Code cs
      else c # scanComments (Str q) cs)"
| "scanComments Block [c] = [c]"
| "scanComments Block (c # d # rest) =
     (if c = CHR ''*'' \<and> d = CHR ''/'' then scanComments Code rest
      else scanComments Block (d # rest))"
| "scanComments Line (c # cs) =
     (if c = CHR 0x0A then c # scanComments Code cs else scanComments Line cs)"
| "scanComments Code [c] = [c]"
| "scanComments Code (c # n # rest) =
     (if c = CHR 0x22 \<or> c = CHR 0x27 \<or> c = CHR 0x60 then c # scanComments (Str c) (n # rest)
      else if c = CHR ''/'' \<and> n = CHR ''*'' then scanComments Block rest
      else if c = CHR ''/'' \<and> n = CHR ''/'' then scanComments Line rest
      else c # scanComments Code (n # rest))"

definition stripComments :: "string \<Rightarrow> string" where
  "stripComments code =
     (let result = scanComments Code code;
          lines = split_lines result;
          cleanedLines = filter (\<lambda>line. length (trim line) > 0) lines
      in trim (join [CHR 0x0A] cleanedLines))"

text \<open>
  The expressions of \<^verbatim>\<open>cleanCode\<close>:
  \<^verbatim>\<open>/^```(?:javascript|js|typescript|ts)?\n?/gi\<close>, \<^verbatim>\<open>/\n?```\s*$/gi\<close>,
  \<^verbatim>\<open>/^(?:here'?s?\s+(?:the\s+)?(?:code|solution|implementation)[:\s]*\n?)/i\<close>, and the three
  wrappers, each split at its capture group \<^verbatim>\<open>([\s\S]*)\<close> into a head and a tail:
  \<^verbatim>\<open>/^(?:async\s+)?function\s+\w*\s*\(\s*tank\s*\)\s*\{([\s\S]*)\}\s*$/\<close>,
  \<^verbatim>\<open>/^(?:const|let|var)\s+\w+\s*=\s*\(?\s*tank\s*\)?\s*=>\s*\{([\s\S]*)\}\s*;?\s*$/\<close> and
  \<^verbatim>\<open>/^\(?\s*tank\s*\)?\s*=>\s*\{([\s\S]*)\}\s*;?\s*$/\<close>. \<open>rx_capture\<close> is the captured text
  of the first match: the longest one for which the tail matches.
\<close>

definition fenceOpen :: rx where
  "fenceOpen =
     rx_seqs [rx_lit ''```'',
              rx_opt (rx_alts [rx_lit_i ''javascript'', rx_lit_i ''js'', rx_lit_i ''typescript'',
                               rx_lit_i ''ts'']),
              rx_opt (rx_lit [CHR 0x0A])]"

definition fenceClose :: rx where
  "fenceClose = rx_seqs [rx_opt (rx_lit [CHR 0x0A]), rx_lit ''```'', rx_star is_space, rx_eos]"

definition heresTheCode :: rx where
  "heresTheCode =
     rx_seqs [rx_lit_i ''here'', rx_opt (rx_lit [CHR 0x27]), rx_opt (rx_lit_i ''s''),
              rx_plus is_space,
              rx_opt (rx_seqs [rx_lit_i ''the'', rx_plus is_space]),
              rx_alts [rx_lit_i ''code'', rx_lit_i ''solution'', rx_lit_i ''implementation''],
              rx_star (\<lambda>c. c = CHR '':'' \<or> is_space c),
              rx_opt (rx_lit [CHR 0x0A])]"

definition rx_capture :: "rx \<Rightarrow> rx \<Rightarrow> string \<Rightarrow> string option" where
  "rx_capture head tail s =
     (case concat (map (\<lambda>c1. concat (map (\<lambda>c2. if tail c2 \<noteq> [] then [consumed c1 c2] else [])
                                   (rx_star (\<lambda>c. True) c1)))
                  (head (None, s))) of
        [] \<Rightarrow> None
      | m # ms \<Rightarrow> Some m)"

definition funcHead :: rx where
  "funcHead =
     rx_seqs [rx_opt (rx_seqs [rx_lit ''async'', rx_plus is_space]),
              rx_lit ''function'', rx_plus is_space, rx_star is_word, rx_star is_space,
              rx_lit ''('', rx_star is_space, rx_lit ''tank'', rx_star is_space, rx_lit '')'',
              rx_star is_space, rx_lit ''{'']"

definition funcTail :: rx where
  "funcTail = rx_seqs [rx_lit ''}'', rx_star is_space, rx_eos]"

definition arrowHead :: rx where
  "arrowHead =
     rx_seqs [rx_alts [rx_lit ''const'', rx_lit ''let'', rx_lit ''var''],
              rx_plus is_space, rx_plus is_word, rx_star is_space, rx_lit ''='', rx_star is_space,
              rx_opt (rx_lit ''(''), rx_star is_space, rx_lit ''tank'', rx_star is_space,
              rx_opt (rx_lit '')''), rx_star is_space, rx_lit ''=>'', rx_star is_space,
              rx_lit ''{'']"

definition pureArrowHead :: rx where
  "pureArrowHead =
     rx_seqs [rx_opt (rx_lit ''(''), rx_star is_space, rx_lit ''tank'', rx_star is_space,
              rx_opt (rx_lit '')''), rx_star is_space, rx_lit ''=>'', rx_star is_space,
              rx_lit ''{'']"

definition arrowTail :: rx where
  "arrowTail =
     rx_seqs [rx_lit ''}'', rx_star is_space, rx_opt (rx_lit '';''), rx_star is_space, rx_eos]"

text \<open>
  The loop over the lines: \<open>looksLikeCode\<close> is the test for the start of the code,
  \<open>proseLine\<close> is \<^verbatim>\<open>/^[A-Z][a-z].*[.!?]$/\<close>, \<open>braceAtEnd\<close> is \<^verbatim>\<open>/\}\s*$/\<close>. \<open>scanLines\<close>
  returns \<^verbatim>\<open>codeLines\<close> at the end of the loop; its two \<^verbatim>\<open>break\<close> statements are the
  branches without a recursive call.
\<close>

definition looksLikeCode :: "string \<Rightarrow> bool" where
  "looksLikeCode trimmedLine \<longleftrightarrow>
     includes_str trimmedLine ''tank.'' \<or>
     startsWith trimmedLine ''const '' \<or>
     startsWith trimmedLine ''let '' \<or>
     startsWith trimmedLine ''var '' \<or>
     startsWith trimmedLine ''if '' \<or>
     startsWith trimmedLine ''if('' \<or>
     startsWith trimmedLine ''for '' \<or>
     startsWith trimmedLine ''while '' \<or>
     startsWith trimmedLine ''return '' \<or>
     startsWith trimmedLine ''switch '' \<or>
     startsWith trimmedLine ''try ''"

definition proseLine :: rx where
  "proseLine =
     rx_seqs [rx_cls is_upper, rx_cls is_lower,
              rx_star (\<lambda>c. c \<noteq> CHR 0x0A \<and> c \<noteq> CHR 0x0D),
              rx_cls (\<lambda>c. c = CHR ''.'' \<or> c = CHR ''!'' \<or> c = CHR ''?''), rx_eos]"

definition braceAtEnd :: rx where
  "braceAtEnd = rx_seqs [rx_lit ''}'', rx_star is_space, rx_eos]"

definition count_char :: "char \<Rightarrow> string \<Rightarrow> nat" where
  "count_char ch s = length (filter (\<lambda>c. c = ch) s)"

fun scanLines :: "bool \<Rightarrow> int \<Rightarrow> string list \<Rightarrow> string list \<Rightarrow> string list" where
  "scanLines inCode braceDepth codeLines [] = codeLines"
| "scanLines inCode braceDepth codeLines (line # rest) =
     (let trimmedLine = trim line
      in if \<not> inCode \<and> trimmedLine = [] then scanLines inCode braceDepth codeLines rest
         else
           let inCode' = (inCode \<or> looksLikeCode trimmedLine)
           in if inCode' then
                let braceDepth' = braceDepth + int (count_char (CHR ''{'') line)
                                    - int (count_char (CHR ''}'') line)
                in if proseLine (None, trimmedLine) \<noteq> [] \<and> \<not> includes_str trimmedLine ''//''
                      \<and> braceDepth' = 0
                   then codeLines
                   else
                     let codeLines' = codeLines @ [line]
                     in if braceDepth' < 0 then
                          let lastLine = last codeLines';
                              replaced = trimEnd (rx_replace braceAtEnd [] False lastLine);
                              codeLines'' = butlast codeLines' @ [replaced]
                          in if trim (last codeLines'') = [] then butlast codeLines''
                             else codeLines''
                        else scanLines inCode' braceDepth' codeLines' rest
              else scanLines inCode' braceDepth codeLines rest)"

text \<open>
  The loop that removes closing braces without an opening one from the end of the result;
  it ends because each round shortens the text.
\<close>

lemma length_trim_le: "length (trim s) \<le> length s"
proof -
  have "length (trimEnd t) \<le> length t" for t
    unfolding trimEnd_def using length_dropWhile_le[of is_space "rev t"] by simp
  moreover have "length (trimStart s) \<le> length s"
    unfolding trimStart_def by (rule length_dropWhile_le)
  ultimately show ?thesis unfolding trim_def using le_trans by blast
qed

function dropOrphanBraces :: "string \<Rightarrow> string" where
  "dropOrphanBraces result =
     (if endsWith result ''}'' \<and> count_char (CHR ''}'') result > count_char (CHR ''{'') result
      then dropOrphanBraces (trim (butlast result))
      else result)"
  by pat_completeness auto
termination
proof (relation "measure length")
  fix result :: string
  assume "endsWith result ''}'' \<and> count_char (CHR ''{'') result < count_char (CHR ''}'') result"
  then have "result \<noteq> []" by (auto simp: endsWith_def)
  then have "length (butlast result) < length result" by simp
  then show "(trim (butlast result), result) \<in> measure length"
    using length_trim_le[of "butlast result"] by simp
qed simp

declare dropOrphanBraces.simps [simp del]

text \<open>
  The least indentation of the lines that are not blank; \<open>None\<close> is the \<^verbatim>\<open>Infinity\<close> the
  reduction starts from.
\<close>

definition indentOf :: "string \<Rightarrow> nat" where
  "indentOf line = length (takeWhile is_space line)"

definition minIndentOf :: "string list \<Rightarrow> nat option" where
  "minIndentOf resultLines =
     fold (\<lambda>line m. case m of None \<Rightarrow> Some (indentOf line) | Some v \<Rightarrow> Some (min v (indentOf line)))
       (filter (\<lambda>l. length (trim l) > 0) resultLines) None"

definition unwrap :: "rx \<Rightarrow> rx \<Rightarrow> string \<Rightarrow> string" where
  "unwrap head tail code = (case rx_capture head tail code of Some body \<Rightarrow> trim body | None \<Rightarrow> code)"

definition cleanCode :: "string \<Rightarrow> string" where
  "cleanCode rawCode =
     (let code0 = trim rawCode;
          code1 = rx_replace_start fenceOpen [] code0;
          code2 = rx_replace fenceClose [] True code1;
          code3 = trim code2;
          code4 = rx_replace_start heresTheCode [] code3;
          code5 = trim code4;
          code6 = stripComments code5;
          code7 = unwrap funcHead funcTail code6;
          code8 = unwrap arrowHead arrowTail code7;
          code9 = unwrap pureArrowHead arrowTail code8;
          codeLines = scanLines False 0 [] (split_lines code9)
      in if length codeLines = 0 then trim code9
         else
           let result = dropOrphanBraces (trim (join [CHR 0x0A] codeLines));
               resultLines = split_lines result
           in trim (case minIndentOf resultLines of
                      None \<Rightarrow> result
                    | Some minIndent \<Rightarrow>
                        if minIndent > 0 then join [CHR 0x0A] (map (drop minIndent) resultLines)
                        else result))"


definition getCleanedCode :: "string \<Rightarrow> string" where
  "getCleanedCode rawCode = cleanCode rawCode"

subsection \<open>The validation pipeline\<close>

text \<open>
  The JavaScript engine is a parameter. \<open>parseError code\<close> is the outcome of
  \<^verbatim>\<open>new Function('tank', code)\<close>: the message of the error it throws, \<open>None\<close> when the
  text parses. \<open>mockRunError code\<close> is the outcome of compiling \<open>code\<close> in the same way and
  calling it once with the mock tank: the message of the exception, \<open>None\<close> for a normal
  end.
\<close>

record Engine =
  parseError :: "string \<Rightarrow> string option"
  mockRunError :: "string \<Rightarrow> string option"

definition validateSyntax :: "Engine \<Rightarrow> string \<Rightarrow> string option" where
  "validateSyntax eng code =
     (case parseError eng code of
        None \<Rightarrow> None
      | Some message \<Rightarrow> Some (''Syntax error: '' @ message))"

definition testExecution :: "Engine \<Rightarrow> string \<Rightarrow> string option" where
  "testExecution eng code =
     (let guardedCode = injectLoopGuards code
      in case mockRunError eng guardedCode of
           None \<Rightarrow> None
         | Some message \<Rightarrow> Some (''Runtime error: '' @ message))"

definition validate :: "Engine \<Rightarrow> string \<Rightarrow> ValidationResult" where
  "validate eng rawCode =
     (let code = cleanCode rawCode
      in case validateSyntax eng code of
           Some syntaxError \<Rightarrow> \<lparr> valid = False, errors = [syntaxError], warnings = [] \<rparr>
         | None \<Rightarrow>
             let forbiddenErrors = checkForbiddenPatterns code;
                 methodWarnings = validateTankMethods code;
                 allErrors =
                   (if length forbiddenErrors = 0 then
                      (case testExecution eng code of
                         None \<Rightarrow> forbiddenErrors
                       | Some execError \<Rightarrow> forbiddenErrors @ [execError])
                    else forbiddenErrors)
             in \<lparr> valid = (length allErrors = 0), errors = allErrors, warnings = methodWarnings \<rparr>)"

subsection \<open>Inputs of the closed examples\<close>

text \<open>An engine for which every text parses and runs to a normal end.\<close>

definition lenient_engine :: Engine where
  "lenient_engine = \<lparr> parseError = (\<lambda>code. None), mockRunError = (\<lambda>code. None) \<rparr>"

subsection \<open>Script bodies that are already clean\<close>

text \<open>
  \<open>plainCode\<close>: the text has no quote character (double, single or backtick) and neither
  \<^verbatim>\<open>//\<close> nor \<^verbatim>\<open>/*\<close>.
\<close>

definition is_quote :: "char \<Rightarrow> bool" where
  "is_quote c \<longleftrightarrow> c = CHR 0x22 \<or> c = CHR 0x27 \<or> c = CHR 0x60"

fun plainCode :: "string \<Rightarrow> bool" where
  "plainCode [] = True"
| "plainCode [c] = (\<not> is_quote c)"
| "plainCode (c # n # rest) =
     (\<not> is_quote c \<and> \<not> (c = CHR ''/'' \<and> (n = CHR ''*'' \<or> n = CHR ''/'')) \<and> plainCode (n # rest))"

text \<open>
  \<open>linesStayCode d lines\<close>: from the brace depth \<open>d\<close> on, the depth at the end of a line is
  never negative, and no line at whose end the depth is 0 looks like prose (matches
  \<^verbatim>\<open>/^[A-Z][a-z].*[.!?]$/\<close> when trimmed).
\<close>

fun linesStayCode :: "int \<Rightarrow> string list \<Rightarrow> bool" where
  "linesStayCode d [] = True"
| "linesStayCode d (line # rest) =
     (let d' = d + int (count_char (CHR ''{'') line) - int (count_char (CHR ''}'') line)
      in \<not> (proseLine (None, trim line) \<noteq> [] \<and> \<not> includes_str (trim line) ''//'' \<and> d' = 0) \<and>
         0 \<le> d' \<and> linesStayCode d' rest)"

text \<open>
  A script body that is already clean: it is not empty and has no white space around it; it
  is plain code; it does not begin with a phrase like \<^verbatim>\<open>here's the code:\<close>; none of its lines
  is blank; it is not as a whole one of the three wrappers of a function of \<^verbatim>\<open>tank\<close>; its
  first line looks like code; and its lines stay code from depth 0.
\<close>

definition already_clean :: "string \<Rightarrow> bool" where
  "already_clean c \<longleftrightarrow>
     c \<noteq> [] \<and> trim c = c \<and>
     plainCode c \<and>
     heresTheCode (None, c) = [] \<and>
     list_all (\<lambda>line. trim line \<noteq> []) (split_lines c) \<and>
     rx_capture funcHead funcTail c = None \<and>
     rx_capture arrowHead arrowTail c = None \<and>
     rx_capture pureArrowHead arrowTail c = None \<and>
     looksLikeCode (trim (hd (split_lines c))) \<and>
     linesStayCode 0 (split_lines c)"

text \<open>
  The raw text of the specification's first scenario, a text made of two nested wrappers,
  and a body of three statements.
\<close>

definition scenarioA_raw :: string where
  "scenarioA_raw = ''```js\<newline>function ai(tank){ tank.move(1); }\<newline>```''"

definition nested_wrappers :: string where
  "nested_wrappers = ''function a(tank){ function b(tank){ tank.move(1); } }''"

definition small_body :: string where
  "small_body = ''const enemy = tank.getNearestEnemy();\<newline>if (enemy) {\<newline>  tank.fire();\<newline>}''"

section \<open>The generation orchestrator (\<^verbatim>\<open>LLMService\<close>)\<close>

text \<open>
  The service holds a provider and a validator. The provider is the inference backend: its
  answer to a call may depend on the prompts and on the calls made before, so \<open>generate\<close>
  takes the number of earlier calls, and every function of the service returns the number of
  calls made so far with its result. A call of the provider ends in a response or in an
  exception (\<open>Threw\<close>, with the message). The validator is the one the service was made
  with: its \<^verbatim>\<open>validate\<close> and \<^verbatim>\<open>getCleanedCode\<close> are the fields \<open>validator_validate\<close> and
  \<open>validator_getCleanedCode\<close>. The system prompt is a constant text, here a field.
\<close>

datatype ProviderOutcome = Resp LLMResponse | Threw string

record Service =
  isModelLoaded :: bool
  generate :: "nat \<Rightarrow> string \<Rightarrow> string \<Rightarrow> ProviderOutcome"
  validator_validate :: "string \<Rightarrow> ValidationResult"
  validator_getCleanedCode :: "string \<Rightarrow> string"
  TANK_API_SYSTEM_PROMPT :: string

text \<open>A string that is present and not empty is truthy; \<open>orElse\<close> is \<^verbatim>\<open>||\<close> on strings.\<close>

definition truthy :: "string option \<Rightarrow> bool" where
  "truthy s \<longleftrightarrow> (case s of None \<Rightarrow> False | Some v \<Rightarrow> v \<noteq> [])"

definition orElse :: "string option \<Rightarrow> string \<Rightarrow> string" where
  "orElse s d = (case s of None \<Rightarrow> d | Some v \<Rightarrow> if v = [] then d else v)"

definition buildUserPrompt :: "string \<Rightarrow> string" where
  "buildUserPrompt userStrategy =
     ''Write tank AI code for this strategy: '' @ [CHR 0x22] @ userStrategy
       @ [CHR 0x22] @ newline @ newline
     @ ''IMPORTANT: Output ONLY the raw code body. NO markdown, NO function wrapper, NO explanations, NO comments.''
     @ newline
     @ ''You may optionally call tank.configureSensors([...]) at the start to customize your sensor layout.''
     @ newline
     @ ''Start directly with code.''"

definition failure :: "string \<Rightarrow> GenerationResult" where
  "failure msg = \<lparr> g_success = False, g_behavior = None, g_error = Some msg, g_rawResponse = None \<rparr>"

definition generateBehavior :: "Service \<Rightarrow> string \<Rightarrow> nat \<Rightarrow> GenerationResult \<times> nat" where
  "generateBehavior sv userStrategy calls =
     (if \<not> isModelLoaded sv then
        (failure ''Model not loaded. Please wait for the model to finish loading.'', calls)
      else
        case generate sv calls (TANK_API_SYSTEM_PROMPT sv) (buildUserPrompt userStrategy) of
          Threw msg \<Rightarrow> (failure msg, Suc calls)
        | Resp response \<Rightarrow>
            if \<not> r_success response \<or> \<not> truthy (r_content response) then
              (failure (orElse (r_error response) ''No response from model''), Suc calls)
            else
              let rawResponse = the (r_content response);
                  cleanedCode = validator_getCleanedCode sv rawResponse;
                  validation = validator_validate sv rawResponse
              in if \<not> valid validation then
                   (\<lparr> g_success = False,
                      g_behavior = Some \<lparr> b_code = cleanedCode, b_strategy = userStrategy,
                                          b_isValid = False,
                                          b_error = Some (join newline (errors validation)) \<rparr>,
                      g_error = Some (join newline (errors validation)),
                      g_rawResponse = Some rawResponse \<rparr>, Suc calls)
                 else
                   (\<lparr> g_success = True,
                      g_behavior = Some \<lparr> b_code = cleanedCode, b_strategy = userStrategy,
                                          b_isValid = True, b_error = None \<rparr>,
                      g_error = None,
                      g_rawResponse = Some rawResponse \<rparr>, Suc calls))"

definition fixHint :: "string \<Rightarrow> string" where
  "fixHint errorMessage =
     (if includes_str errorMessage ''enemy.distanceTo is not a function'' then
        newline @ ''FIX: Use tank.distanceTo(enemy.position) instead of enemy.distanceTo(). Enemy objects are plain data with no methods.''
      else if includes_str errorMessage ''enemy.angleTo is not a function'' then
        newline @ ''FIX: Use tank.angleTo(enemy.position) instead of enemy.angleTo(). Enemy objects are plain data with no methods.''
      else if includes_str errorMessage ''is not a function'' then
        newline @ ''FIX: Only use methods defined in the API. Enemy objects have no methods - only data (position, distance, health).''
      else [])"

definition feedbackPrompt :: "string \<Rightarrow> string \<Rightarrow> string \<Rightarrow> string" where
  "feedbackPrompt userStrategy previousCode errorMessage =
     buildUserPrompt userStrategy @ newline @ newline
     @ ''CRITICAL ERROR in your previous code:'' @ newline
     @ errorMessage @ fixHint errorMessage @ newline @ newline
     @ ''Your broken code:'' @ newline
     @ previousCode @ newline @ newline
     @ ''Output ONLY the fixed code. Do NOT repeat the same mistake.''"

definition regenerateWithFeedback ::
  "Service \<Rightarrow> string \<Rightarrow> string \<Rightarrow> string \<Rightarrow> nat \<Rightarrow> GenerationResult \<times> nat" where
  "regenerateWithFeedback sv userStrategy previousCode errorMessage calls =
     (case generate sv calls (TANK_API_SYSTEM_PROMPT sv)
             (feedbackPrompt userStrategy previousCode errorMessage) of
        Threw msg \<Rightarrow> (failure msg, Suc calls)
      | Resp response \<Rightarrow>
          if \<not> r_success response \<or> \<not> truthy (r_content response) then
            (failure (orElse (r_error response) ''No response from model''), Suc calls)
          else
            let rawResponse = the (r_content response);
                cleanedCode = validator_getCleanedCode sv rawResponse;
                validation = validator_validate sv rawResponse
            in if \<not> valid validation then
                 (\<lparr> g_success = False, g_behavior = None,
                    g_error = Some (join newline (errors validation)),
                    g_rawResponse = Some rawResponse \<rparr>, Suc calls)
               else
                 (\<lparr> g_success = True,
                    g_behavior = Some \<lparr> b_code = cleanedCode, b_strategy = userStrategy,
                                        b_isValid = True, b_error = None \<rparr>,
                    g_error = None,
                    g_rawResponse = Some rawResponse \<rparr>, Suc calls))"

text \<open>
  The candidate code of a result: \<^verbatim>\<open>result.behavior?.code || result.rawResponse\<close>, \<open>None\<close>
  when neither is truthy.
\<close>

definition candidateCode :: "GenerationResult \<Rightarrow> string option" where
  "candidateCode result =
     (if truthy (map_option b_code (g_behavior result)) then map_option b_code (g_behavior result)
      else if truthy (g_rawResponse result) then g_rawResponse result
      else None)"

text \<open>
  The loop \<^verbatim>\<open>for (let i = 0; i < maxRetries && !result.success; i++)\<close>, by the number
  \<open>n\<close> of iterations \<open>maxRetries - i\<close> still allowed; the retry budget is a natural number.
\<close>

fun retryLoop ::
  "Service \<Rightarrow> string \<Rightarrow> nat \<Rightarrow> GenerationResult \<Rightarrow> string \<Rightarrow> nat \<Rightarrow> GenerationResult \<times> nat" where
  "retryLoop sv userStrategy 0 result lastCode calls = (result, calls)"
| "retryLoop sv userStrategy (Suc n) result lastCode calls =
     (if g_success result then (result, calls)
      else if lastCode = [] then (result, calls)
      else
        let (result', calls') =
              regenerateWithFeedback sv userStrategy lastCode
                (orElse (g_error result) ''Unknown error'') calls;
            lastCode' = (case candidateCode result' of Some c \<Rightarrow> c | None \<Rightarrow> lastCode)
        in retryLoop sv userStrategy n result' lastCode' calls')"

definition generateWithAutoRetry :: "Service \<Rightarrow> string \<Rightarrow> nat \<Rightarrow> nat \<Rightarrow> GenerationResult \<times> nat" where
  "generateWithAutoRetry sv userStrategy maxRetries calls =
     (let (result0, calls0) = generateBehavior sv userStrategy calls;
          lastCode = (case candidateCode result0 of Some c \<Rightarrow> c | None \<Rightarrow> []);
          (result, calls') = retryLoop sv userStrategy maxRetries result0 lastCode calls0
      in if \<not> g_success result then
           (\<lparr> g_success = False, g_behavior = None,
              g_error = Some (''Code generation failed after '' @ show_nat maxRetries
                              @ '' attempts. Last error: ''
                              @ (case g_error result of None \<Rightarrow> ''undefined'' | Some e \<Rightarrow> e)),
              g_rawResponse = g_rawResponse result \<rparr>, calls')
         else (result, calls'))"

text \<open>
  A backend and a validator for the closed example: the backend answers every call with the
  same text, which the validator rejects with one error.
\<close>

definition rejecting_service :: Service where
  "rejecting_service =
     \<lparr> isModelLoaded = True,
       generate = (\<lambda>n sp up. Resp \<lparr> r_success = True, r_content = Some ''tank.jump();'', r_error = None \<rparr>),
       validator_validate = (\<lambda>raw. \<lparr> valid = False, errors = [''Runtime error: tank.jump is not a function''],
                            warnings = [] \<rparr>),
       validator_getCleanedCode = (\<lambda>raw. raw),
       TANK_API_SYSTEM_PROMPT = ''You write tank code.'' \<rparr>"

text \<open>
  The hypothesis of the retry scenario: the model is loaded, and the backend answers every
  call with a text that is not empty and fails validation.
\<close>

definition always_rejected :: "Service \<Rightarrow> bool" where
  "always_rejected sv \<longleftrightarrow>
     isModelLoaded sv \<and>
     (\<forall>n sp up. \<exists>resp. generate sv n sp up = Resp resp \<and> r_success resp \<and>
         truthy (r_content resp) \<and> \<not> valid (validator_validate sv (the (r_content resp))))"

text \<open>
  The result \<open>r\<close> is the failure made from the answer to the call number \<open>k\<close>: its error is
  the joined errors of the validation of that answer.
\<close>

definition rejected_at :: "Service \<Rightarrow> nat \<Rightarrow> GenerationResult \<Rightarrow> bool" where
  "rejected_at sv k r \<longleftrightarrow>
     \<not> g_success r \<and>
     (\<exists>sp up resp c. generate sv k sp up = Resp resp \<and> r_content resp = Some c \<and> c \<noteq> [] \<and>
        g_rawResponse r = Some c \<and>
        g_error r = Some (join newline (errors (validator_validate sv c))))"

section \<open>The execution of a guarded loop\<close>

text \<open>
  \<open>injectLoopGuards\<close> replaces the opening \<^verbatim>\<open>while (c) {\<close> of a loop by
  \<^verbatim>\<open>{ let __loopGuardN=0; while (c) { if(++__loopGuardN>100)break;\<close> (\<open>guardHeader\<close>). What
  follows is how that text runs. A statement is a function of the state of the script, the
  variables it can reach and the state behind the capability object it is given: it gives
  the way the statement completes and the state it leaves, and \<open>None\<close> when it never
  completes. A statement completes normally, by \<^verbatim>\<open>break\<close>, by \<^verbatim>\<open>continue\<close>, by \<^verbatim>\<open>return\<close> or by
  an exception.
\<close>

datatype completion = Normal | Break | Continue | Returns | Throws string









subsection \<open>The stand-in of the test execution\<close>








chapter \<open>Properties\<close>

section \<open>Sensor configuration\<close>

lemma Clamp_bounds: "lo \<le> hi \<Longrightarrow> lo \<le> Clamp v lo hi \<and> Clamp v lo hi \<le> hi"
  by (simp add: Clamp_def)

lemma Clamp_id: "lo \<le> v \<Longrightarrow> v \<le> hi \<Longrightarrow> Clamp v lo hi = v"
  by (simp add: Clamp_def)

lemma clampConfig_id:
  "minArc \<le> arc c \<Longrightarrow> arc c \<le> maxArc \<Longrightarrow> minRange \<le> rng c \<Longrightarrow> rng c \<le> maxRange \<Longrightarrow>
   clampConfig c = c"
  by (simp add: clampConfig_def Clamp_id)

text \<open>
  C4. \<open>configureSensors\<close> is atomic. A call with no entry or with more than 8 entries
  returns failure and the agent is the one before the call, its sensor list included. A call
  with 1 to 8 entries returns success, and the new sensor list is made of the given entries
  alone, one for each in their order (each clamped); when the given entries are all within
  the constraints, the new list is the given list itself.
\<close>

theorem configureSensors_atomic:
  "(length configs = 0 \<or> length configs > 8 \<longrightarrow>
      configureSensors t configs = (False, t)) \<and>
   (1 \<le> length configs \<and> length configs \<le> 8 \<longrightarrow>
      fst (configureSensors t configs) = True \<and>
      sensors (snd (configureSensors t configs)) = map clampConfig configs \<and>
      length (sensors (snd (configureSensors t configs))) = length configs \<and>
      ((\<forall>c \<in> set configs. minArc \<le> arc c \<and> arc c \<le> maxArc \<and> minRange \<le> rng c \<and> rng c \<le> maxRange)
         \<longrightarrow> sensors (snd (configureSensors t configs)) = configs))"
proof -
  have "map clampConfig configs = configs"
    if "\<forall>c \<in> set configs. minArc \<le> arc c \<and> arc c \<le> maxArc \<and> minRange \<le> rng c \<and> rng c \<le> maxRange"
    using that by (intro map_idI) (simp add: clampConfig_id)
  then show ?thesis
    by (auto simp: configureSensors_def maxSensors_def)
qed

theorem configureSensors_atomic_witness:
  "configureSensors (scenario_tank 0 0) [] = (False, scenario_tank 0 0) \<and>
   configureSensors (scenario_tank 0 0) (replicate 9 \<lparr> arc = 90, rng = 400, offset = 0 \<rparr>)
     = (False, scenario_tank 0 0) \<and>
   fst (configureSensors (scenario_tank 0 0) (replicate 8 \<lparr> arc = 60, rng = 300, offset = 45 \<rparr>)) = True \<and>
   sensors (snd (configureSensors (scenario_tank 0 0) (replicate 8 \<lparr> arc = 60, rng = 300, offset = 45 \<rparr>)))
     = replicate 8 \<lparr> arc = 60, rng = 300, offset = 45 \<rparr>"
  using configureSensors_atomic [of "[]" "scenario_tank 0 0"]
    configureSensors_atomic [of "replicate 9 \<lparr> arc = 90, rng = 400, offset = 0 \<rparr>" "scenario_tank 0 0"]
    configureSensors_atomic [of "replicate 8 \<lparr> arc = 60, rng = 300, offset = 45 \<rparr>" "scenario_tank 0 0"]
  by (simp add: minArc_def maxArc_def minRange_def maxRange_def clampConfig_def Clamp_def)



section \<open>Cone membership\<close>

lemma normalize_spec_range: "- 180 < normalize_spec d \<and> normalize_spec d \<le> 180"
proof -
  define c :: real where "c = of_int \<lceil>(d - 180) / 360\<rceil>"
  have "c < (d - 180) / 360 + 1" "(d - 180) / 360 \<le> c"
    unfolding c_def by linarith+
  then have "- 180 < d - 360 * c \<and> d - 360 * c \<le> 180"
    by (simp add: field_simps)
  then show ?thesis unfolding normalize_spec_def c_def .
qed

lemma normalize_spec_unique:
  assumes "r = d - 360 * of_int k" "- 180 < r" "r \<le> 180"
  shows "normalize_spec d = r"
proof -
  have "\<lceil>(d - 180) / 360\<rceil> = k"
    using assms by (intro ceiling_unique) (auto simp: field_simps)
  then show ?thesis using assms by (simp add: normalize_spec_def)
qed

text \<open>
  The first loop subtracts a multiple of 360 and ends at most at 180; the second adds one
  and ends at least at -180, without leaving the range the first one reached.
\<close>

lemma wrapDown_props:
  "\<exists>k::int. wrapDown a = a - 360 * of_int k \<and> wrapDown a \<le> 180 \<and>
     (a > - 180 \<longrightarrow> wrapDown a > - 180) \<and> (a \<le> 180 \<longrightarrow> wrapDown a = a)"
proof (induction a rule: wrapDown.induct)
  case (1 a)
  show ?case
  proof (cases "a > 180")
    case True
    from 1[OF True] obtain k :: int where
      k: "wrapDown (a - 360) = a - 360 - 360 * of_int k" "wrapDown (a - 360) \<le> 180"
         "a - 360 > - 180 \<longrightarrow> wrapDown (a - 360) > - 180" by auto
    have e: "wrapDown a = wrapDown (a - 360)" using True by (subst wrapDown.simps) simp
    show ?thesis
      by (rule exI[of _ "k + 1"]) (use k e True in auto)
  next
    case False
    then have "wrapDown a = a" by (subst wrapDown.simps) simp
    then show ?thesis using False by (intro exI[of _ 0]) auto
  qed
qed

lemma wrapUp_props:
  "\<exists>k::int. wrapUp a = a - 360 * of_int k \<and> wrapUp a \<ge> - 180 \<and>
     (a \<le> 180 \<longrightarrow> wrapUp a \<le> 180) \<and> (a \<ge> - 180 \<longrightarrow> wrapUp a = a)"
proof (induction a rule: wrapUp.induct)
  case (1 a)
  show ?case
  proof (cases "a < - 180")
    case True
    from 1[OF True] obtain k :: int where
      k: "wrapUp (a + 360) = a + 360 - 360 * of_int k" "wrapUp (a + 360) \<ge> - 180"
         "a + 360 \<le> 180 \<longrightarrow> wrapUp (a + 360) \<le> 180" by auto
    have e: "wrapUp a = wrapUp (a + 360)" using True by (subst wrapUp.simps) simp
    show ?thesis
      by (rule exI[of _ "k - 1"]) (use k e True in auto)
  next
    case False
    then have "wrapUp a = a" by (subst wrapUp.simps) simp
    then show ?thesis using False by (intro exI[of _ 0]) auto
  qed
qed

text \<open>
  The source's loops end in \<open>[-180, 180]\<close>, the specification's interval is \<open>(-180, 180]\<close>:
  the two differ at -180 only, and not in absolute value.
\<close>

lemma abs_normalize: "\<bar>wrapUp (wrapDown d)\<bar> = \<bar>normalize_spec d\<bar>"
proof -
  obtain k where k: "wrapDown d = d - 360 * of_int k" "wrapDown d \<le> 180"
    using wrapDown_props[of d] by blast
  obtain j where j: "wrapUp (wrapDown d) = wrapDown d - 360 * of_int j"
      "wrapUp (wrapDown d) \<ge> - 180" "wrapUp (wrapDown d) \<le> 180"
    using wrapUp_props[of "wrapDown d"] k(2) by blast
  let ?r = "wrapUp (wrapDown d)"
  have r: "?r = d - 360 * of_int (k + j)" using k j by simp
  show ?thesis
  proof (cases "?r = - 180")
    case True
    have "normalize_spec d = 180"
      by (rule normalize_spec_unique[where k = "k + j - 1"])
        (use r True in \<open>auto simp: algebra_simps\<close>)
    then show ?thesis using True by simp
  next
    case False
    have "normalize_spec d = ?r"
      by (rule normalize_spec_unique[where k = "k + j"]) (use r False j in auto)
    then show ?thesis by simp
  qed
qed

lemma wrap_id: "- 180 \<le> a \<Longrightarrow> a \<le> 180 \<Longrightarrow> wrapUp (wrapDown a) = a"
  by (simp add: wrapDown.simps wrapUp.simps)

lemma isPointInSensorIndex_spec:
  assumes "0 \<le> i" "i < int (length (sensors t))"
  shows "isPointInSensorIndex t p i = cone_member_spec (sensors t ! nat i) t p"
  using assms
  by (auto simp: isPointInSensorIndex_def cone_member_spec_def distance_spec_def
        bearing_spec_def getHeading_def Let_def abs_normalize power2_eq_square)

lemma atan2_polar_q1:
  assumes "0 < d" "- (pi / 2) < a" "a < pi / 2"
  shows "atan2 (d * sin a) (d * cos a) = a"
proof -
  have c: "0 < cos a" using assms by (simp add: cos_gt_zero_pi)
  then have "0 < d * cos a" using assms by simp
  moreover have "d * sin a / (d * cos a) = tan a" using assms by (simp add: tan_def)
  ultimately show ?thesis using assms by (simp add: atan2_def arctan_tan)
qed

lemma atan2_polar_q2:
  assumes "0 < d" "pi / 2 < a" "a < pi"
  shows "atan2 (d * sin a) (d * cos a) = a"
proof -
  have "0 < cos (a - pi)" using assms by (intro cos_gt_zero_pi) auto
  then have c: "cos a < 0" by simp
  have s: "0 < sin a" using assms by (intro sin_gt_zero) auto
  have n: "d * cos a < 0" using assms c by (simp add: mult_pos_neg)
  have p: "0 \<le> d * sin a" using assms s by simp
  have "d * sin a / (d * cos a) = tan (a - pi)" using assms by (simp add: tan_def)
  moreover have "arctan (tan (a - pi)) = a - pi" using assms by (intro arctan_tan) auto
  ultimately show ?thesis using n p by (simp add: atan2_def)
qed

lemma distance_polar:
  "0 \<le> d \<Longrightarrow> sqrt (d * cos a * (d * cos a) + d * sin a * (d * sin a)) = d"
proof -
  assume d: "0 \<le> d"
  have "d * cos a * (d * cos a) + d * sin a * (d * sin a)
      = d * d * (cos a * cos a + sin a * sin a)"
    by algebra
  also have "\<dots> = d * d" by (simp only: sin_cos_squared_add3 mult_1_right)
  finally show ?thesis using d by simp
qed

lemma RadToDeg_deg: "RadToDeg (b * pi / 180) = b"
  by (simp add: RadToDeg_def)

text \<open>
  The test at a point given by its distance and bearing from the agent, for a bearing
  strictly between -90 and 90 or between 90 and 180 degrees.
\<close>

lemma isPointInSensorIndex_polar:
  assumes i: "0 \<le> i" "i < int (length (sensors t))"
    and d: "0 < d"
    and b: "(- 90 < b \<and> b < 90) \<or> (90 < b \<and> b < 180)"
  shows "isPointInSensorIndex t (polar t d b) i \<longleftrightarrow>
           d \<le> rng (sensors t ! nat i) \<and>
           \<bar>wrapUp (wrapDown (b - (RadToDeg (rotation t) + offset (sensors t ! nat i))))\<bar>
             \<le> arc (sensors t ! nat i) / 2"
proof -
  let ?a = "b * pi / 180"
  have dx: "px (polar t d b) - pos_x t = d * cos ?a"
    and dy: "py (polar t d b) - pos_y t = d * sin ?a"
    by (simp_all add: polar_def)
  have dist: "sqrt (d * cos ?a * (d * cos ?a) + d * sin ?a * (d * sin ?a)) = d"
    using d by (intro distance_polar) simp
  have "atan2 (d * sin ?a) (d * cos ?a) = ?a"
  proof -
    from b consider "- 90 < b \<and> b < 90" | "90 < b \<and> b < 180" by blast
    then show ?thesis
    proof cases
      case 1
      then have "pi * (- 1 / 2) < pi * (b / 180)" "pi * (b / 180) < pi * (1 / 2)"
        using pi_gt_zero by (intro mult_strict_left_mono; simp)+
      then have "- (pi / 2) < ?a" "?a < pi / 2" by (simp_all add: mult.commute)
      then show ?thesis using d by (intro atan2_polar_q1)
    next
      case 2
      then have "pi * (1 / 2) < pi * (b / 180)" "pi * (b / 180) < pi * 1"
        using pi_gt_zero by (intro mult_strict_left_mono; simp)+
      then have "pi / 2 < ?a" "?a < pi" by (simp_all add: mult.commute)
      then show ?thesis using d by (intro atan2_polar_q2)
    qed
  qed
  then have ang: "RadToDeg (atan2 (d * sin ?a) (d * cos ?a)) = b"
    by (simp only: RadToDeg_deg)
  show ?thesis
    unfolding isPointInSensorIndex_def Let_def dx dy dist ang using i by auto
qed

lemma scenario_95:
  "\<not> isPointInSensorIndex (scenario_tank ox oy) (polar (scenario_tank ox oy) 100 95) 0"
  by (subst isPointInSensorIndex_polar) (simp_all add: scenario_tank_def RadToDeg_def wrap_id)

lemma scenario_40_399:
  "isPointInSensorIndex (scenario_tank ox oy) (polar (scenario_tank ox oy) 399 40) 0"
  by (subst isPointInSensorIndex_polar) (simp_all add: scenario_tank_def RadToDeg_def wrap_id)

lemma scenario_40_401:
  "\<not> isPointInSensorIndex (scenario_tank ox oy) (polar (scenario_tank ox oy) 401 40) 0"
  by (subst isPointInSensorIndex_polar) (simp_all add: scenario_tank_def RadToDeg_def wrap_id)

text \<open>
  C6. For a sensor of the agent (a valid index), the source's test is the specification's:
  the target is within the sensor's range, and the absolute value of the difference between
  the bearing to the target and the sensor's centre bearing (heading plus offset),
  normalised into \<open>(-180, 180]\<close>, is at most half the arc; a target out of range is rejected
  whatever its bearing. With the single sensor \<open>{arc: 90, range: 400, offset: 0}\<close> at heading
  0, a target at bearing 95 and distance 100 is not a member, one at bearing 40 and distance
  399 is, and one at bearing 40 and distance 401 is not.
\<close>

theorem cone_membership:
  "(\<forall>i. 0 \<le> i \<and> i < int (length (sensors t)) \<longrightarrow>
      (isPointInSensorIndex t p i \<longleftrightarrow>
         distance_spec t p \<le> rng (sensors t ! nat i) \<and>
         \<bar>normalize_spec (bearing_spec t p - (getHeading t + offset (sensors t ! nat i)))\<bar>
           \<le> arc (sensors t ! nat i) / 2) \<and>
      (distance_spec t p > rng (sensors t ! nat i) \<longrightarrow> \<not> isPointInSensorIndex t p i)) \<and>
   \<not> isPointInSensorIndex (scenario_tank ox oy) (polar (scenario_tank ox oy) 100 95) 0 \<and>
   isPointInSensorIndex (scenario_tank ox oy) (polar (scenario_tank ox oy) 399 40) 0 \<and>
   \<not> isPointInSensorIndex (scenario_tank ox oy) (polar (scenario_tank ox oy) 401 40) 0"
proof -
  have "isPointInSensorIndex t p i \<longleftrightarrow>
         distance_spec t p \<le> rng (sensors t ! nat i) \<and>
         \<bar>normalize_spec (bearing_spec t p - (getHeading t + offset (sensors t ! nat i)))\<bar>
           \<le> arc (sensors t ! nat i) / 2"
    if "0 \<le> i" "i < int (length (sensors t))" for i
    using isPointInSensorIndex_spec[OF that] by (simp add: cone_member_spec_def)
  then show ?thesis
    using scenario_95 scenario_40_399 scenario_40_401 by auto
qed

text \<open>
  The general part at the sensor of the scenario and a target 4 to the east and 3 to the
  south of the observer: at distance 5, within range, and at a bearing within the arc.
\<close>

theorem cone_membership_witness:
  "isPointInSensorIndex (scenario_tank 0 0) \<lparr> px = 4, py = 3 \<rparr> 0 \<and>
   distance_spec (scenario_tank 0 0) \<lparr> px = 4, py = 3 \<rparr> = 5 \<and>
   \<bar>normalize_spec (bearing_spec (scenario_tank 0 0) \<lparr> px = 4, py = 3 \<rparr>)\<bar> \<le> 45"
proof -
  let ?t = "scenario_tank 0 0" and ?p = "\<lparr> px = 4, py = 3 \<rparr>"
  have "sqrt 25 = 5" by (rule real_sqrt_unique) simp_all
  then have d: "distance_spec ?t ?p = 5"
    by (simp add: distance_spec_def scenario_tank_def)
  have "arctan (3 / 4) \<le> arctan 1" by (intro arctan_monotone') simp
  moreover have "0 \<le> arctan (3 / 4 :: real)" by simp
  ultimately have b: "0 \<le> bearing_spec ?t ?p" "bearing_spec ?t ?p \<le> 45"
    using pi_gt_zero
    by (simp_all add: bearing_spec_def scenario_tank_def atan2_def RadToDeg_def arctan_one
        field_simps)
  have n: "normalize_spec (bearing_spec ?t ?p) = bearing_spec ?t ?p"
    by (rule normalize_spec_unique[where k = 0]) (use b in auto)
  have i: "(0::int) \<le> 0 \<and> 0 < int (length (sensors ?t))" by (simp add: scenario_tank_def)
  from cone_membership[of ?t ?p 0 0] i
  have "isPointInSensorIndex ?t ?p 0 \<longleftrightarrow>
         distance_spec ?t ?p \<le> rng (sensors ?t ! nat 0) \<and>
         \<bar>normalize_spec (bearing_spec ?t ?p - (getHeading ?t + offset (sensors ?t ! nat 0)))\<bar>
           \<le> arc (sensors ?t ! nat 0) / 2"
    by blast
  moreover have "getHeading ?t + offset (sensors ?t ! nat 0) = 0"
    "rng (sensors ?t ! nat 0) = 400" "arc (sensors ?t ! nat 0) / 2 = 45"
    by (simp_all add: scenario_tank_def getHeading_def RadToDeg_def)
  ultimately show ?thesis using d n b by simp
qed

section \<open>The nearest enemy\<close>

lemma isPointDetectable_iff: "isPointDetectable t p \<longleftrightarrow> in_some_cone t p"
proof
  assume "isPointDetectable t p"
  then obtain n where "n < length (sensors t)" "isPointInSensorIndex t p (int n)"
    by (auto simp: isPointDetectable_def list_ex_iff)
  then show "in_some_cone t p"
    unfolding in_some_cone_def by (intro exI[of _ "int n"]) simp
next
  assume "in_some_cone t p"
  then obtain i where i: "0 \<le> i" "i < int (length (sensors t))" "isPointInSensorIndex t p i"
    unfolding in_some_cone_def by blast
  then have "nat i < length (sensors t)" "isPointInSensorIndex t p (int (nat i))" by simp_all
  then show "isPointDetectable t p"
    unfolding isPointDetectable_def list_ex_iff by (intro bexI[of _ "nat i"]) simp_all
qed

lemma sort_key_first_least:
  assumes "xs \<noteq> []"
  shows "sort_key f xs ! 0 \<in> set xs \<and> (\<forall>x \<in> set xs. f (sort_key f xs ! 0) \<le> f x)"
proof -
  let ?s = "sort_key f xs"
  have "?s \<noteq> []" using assms by (metis length_0_conv length_sort)
  then obtain y ys where s: "?s = y # ys" by (cases ?s) auto
  have "sorted (map f ?s)" by simp
  then have "\<forall>x \<in> set ys. f y \<le> f x" unfolding s by simp
  moreover have "set ?s = set xs" by simp
  ultimately show ?thesis unfolding s by auto
qed

text \<open>
  C5. With the enemies \<open>es\<close> that the callback returns, \<open>getNearestEnemy\<close> returns null
  exactly when no enemy of \<open>es\<close> lies within a sensor cone of the observer, whatever enemies
  there are outside the cones; and an enemy it returns is one of \<open>es\<close>, lies within a cone,
  and no enemy of \<open>es\<close> within a cone has a smaller distance.
\<close>

theorem getNearestEnemy_nearest:
  "(fst (getNearestEnemy_api h (Inr es) sb) = VEnemy None \<longleftrightarrow>
      \<not> (\<exists>e \<in> set es. in_some_cone (sb_tank sb) (position e))) \<and>
   (\<forall>r. fst (getNearestEnemy_api h (Inr es) sb) = VEnemy (Some r) \<longrightarrow>
      r \<in> set es \<and> in_some_cone (sb_tank sb) (position r) \<and>
      (\<forall>e \<in> set es. in_some_cone (sb_tank sb) (position e) \<longrightarrow> distance r \<le> distance e)) \<and>
   (\<exists>v. fst (getNearestEnemy_api h (Inr es) sb) = VEnemy v)"
proof -
  let ?d = "filter (\<lambda>e. isPointDetectable (sb_tank sb) (position e)) es"
  have fst_eq: "fst (getNearestEnemy_api h (Inr es) sb) =
      VEnemy (if ?d \<noteq> [] then Some (sort_key distance ?d ! 0) else None)"
  proof -
    have "(0 < length (sort_key distance ?d)) = (?d \<noteq> [])" by simp
    then show ?thesis by (simp add: getNearestEnemy_api_def Let_def del: length_sort)
  qed
  show ?thesis
  proof (cases "?d = []")
    case True
    then have "\<forall>e \<in> set es. \<not> isPointDetectable (sb_tank sb) (position e)"
      by (simp add: filter_empty_conv)
    then show ?thesis using True by (simp add: fst_eq isPointDetectable_iff)
  next
    case False
    from sort_key_first_least[OF False, of distance]
    have "sort_key distance ?d ! 0 \<in> set ?d"
      and "\<forall>x \<in> set ?d. distance (sort_key distance ?d ! 0) \<le> distance x" by blast+
    moreover from False have "\<exists>e \<in> set es. isPointDetectable (sb_tank sb) (position e)"
      by (simp add: filter_empty_conv)
    ultimately show ?thesis using False by (auto simp: fst_eq isPointDetectable_iff)
  qed
qed

lemma scenario_cone:
  assumes "0 < d" "(- 90 < b \<and> b < 90) \<or> (90 < b \<and> b < 180)"
  shows "in_some_cone (scenario_tank 0 0) (position (enemy_at d b)) \<longleftrightarrow> d \<le> 400 \<and> \<bar>b\<bar> \<le> 45"
proof -
  let ?t = "scenario_tank 0 0"
  have l: "length (sensors ?t) = 1" by (simp add: scenario_tank_def)
  have "in_some_cone ?t (polar ?t d b) \<longleftrightarrow> isPointInSensorIndex ?t (polar ?t d b) 0"
  proof -
    have "(0 \<le> i \<and> i < int 1) = (i = 0)" for i :: int by auto
    then show ?thesis unfolding in_some_cone_def l by (simp add: conj_assoc[symmetric])
  qed
  also have "\<dots> \<longleftrightarrow> d \<le> 400 \<and> \<bar>wrapUp (wrapDown b)\<bar> \<le> 45"
    using assms by (subst isPointInSensorIndex_polar) (simp_all add: scenario_tank_def RadToDeg_def)
  also have "wrapUp (wrapDown b) = b" using assms by (intro wrap_id) auto
  finally show ?thesis by (simp add: enemy_at_def)
qed

text \<open>
  One enemy outside the cone (bearing 95) and two inside, at distances 399 and 200: the
  nearer of the two is returned. One enemy outside the cone and one out of range: null.
\<close>

theorem getNearestEnemy_nearest_witness:
  "fst (getNearestEnemy_api example_host
         (Inr [enemy_at 100 95, enemy_at 399 40, enemy_at 200 10]) example_sandbox)
     = VEnemy (Some (enemy_at 200 10)) \<and>
   fst (getNearestEnemy_api example_host
         (Inr [enemy_at 100 95, enemy_at 401 40]) example_sandbox) = VEnemy None"
proof -
  have t: "sb_tank example_sandbox = scenario_tank 0 0" by (simp add: example_sandbox_def)
  have c1: "\<not> in_some_cone (scenario_tank 0 0) (position (enemy_at 100 95))"
    by (subst scenario_cone) simp_all
  have c2: "in_some_cone (scenario_tank 0 0) (position (enemy_at 399 40))"
    by (subst scenario_cone) simp_all
  have c3: "in_some_cone (scenario_tank 0 0) (position (enemy_at 200 10))"
    by (subst scenario_cone) simp_all
  have c4: "\<not> in_some_cone (scenario_tank 0 0) (position (enemy_at 401 40))"
    by (subst scenario_cone) simp_all
  have d: "distance (enemy_at d b) = d" for d b by (simp add: enemy_at_def)
  let ?es = "[enemy_at 100 95, enemy_at 399 40, enemy_at 200 10]"
  let ?r = "fst (getNearestEnemy_api example_host (Inr ?es) example_sandbox)"
  note n = getNearestEnemy_nearest[of example_host ?es example_sandbox, unfolded t]
  from n obtain v where v: "?r = VEnemy v" by blast
  have "v \<noteq> None" using n c2 v by auto
  then obtain r where r: "?r = VEnemy (Some r)" using v by auto
  with n have "r \<in> set ?es" "in_some_cone (scenario_tank 0 0) (position r)"
    "\<forall>e \<in> set ?es. in_some_cone (scenario_tank 0 0) (position e) \<longrightarrow> distance r \<le> distance e"
    by blast+
  then have "r = enemy_at 200 10" using c1 c3 by (auto simp: d)
  moreover have "fst (getNearestEnemy_api example_host
         (Inr [enemy_at 100 95, enemy_at 401 40]) example_sandbox) = VEnemy None"
    using getNearestEnemy_nearest[of example_host "[enemy_at 100 95, enemy_at 401 40]"
        example_sandbox, unfolded t] c1 c4 by simp
  ultimately show ?thesis using r by simp
qed

section \<open>Failure isolation of a tick\<close>

lemma execute_Inr: "\<exists>r. execute h now g b t con = Inr r"
  by (auto simp: execute_def Let_def split: option.splits prod.splits)

lemma brainExecute_Inr: "\<exists>w'. brainExecute sc i brain w = Inr w'"
proof -
  obtain r where
    "execute (host sc) (clock sc) (\<lambda>t'. getEnemiesFor sc ((tanks w)[i := t']) i)
       brain (tanks w ! i) (console w) = Inr r"
    using execute_Inr by blast
  then show ?thesis by (cases r) (simp add: brainExecute_def Let_def)
qed

lemma tankIteration_Inr: "\<exists>w'. tankIteration sc i w = Inr w'"
proof -
  have "\<exists>w'. (case tankBrains w (tankId (tanks w ! i)) of
                  Some brain \<Rightarrow>
                    if isValid brain then brainExecute sc i brain w else Inr (runTankAI sc i w)
                | None \<Rightarrow> Inr (runTankAI sc i w)) = Inr w'"
    using brainExecute_Inr by (auto split: option.splits)
  then show ?thesis by (auto simp: tankIteration_def Let_def)
qed

lemma tankLoop_fold:
  "tankLoop sc is w = Inr (foldl (\<lambda>w i. projr (tankIteration sc i w)) w is)"
proof (induction "is" arbitrary: w)
  case Nil
  show ?case by simp
next
  case (Cons i rest)
  obtain w' where "tankIteration sc i w = Inr w'" using tankIteration_Inr by blast
  then show ?case using Cons.IH[of w'] by simp
qed

text \<open>
  C3. \<open>execute\<close> never ends in an exception, whatever the script does. When the script of a
  live agent throws \<open>e\<close>, \<open>execute\<close> ends normally: the console gets one warning that names
  the tank and \<open>e\<close>, and the agent and the trace are as the script left them. So \<open>update\<close>
  never ends in an exception, and its loop runs the iteration of every tank of its list, one
  after the other, whatever the scripts of the tanks before it did: the loop is the fold of
  the iterations over the list.
\<close>

theorem execute_isolation:
  "(\<exists>r. execute h now g b t con = Inr r) \<and>
   (\<forall>f e sb. compiledFunction b = Some f \<and> active t \<and> \<not> isDead t \<and>
        run f h now g \<lparr> sb_tank = t, sb_trace = [] \<rparr> = (Some e, sb) \<longrightarrow>
      execute h now g b t con =
        Inr (b\<lparr>lastTrace := sb_trace sb\<rparr>, sb_tank sb,
             con @ [''TankBrain execution error for '' @ tankId t @ '': '' @ e])) \<and>
   (\<exists>w'. update sc w = Inr w') \<and>
   tankLoop sc is w = Inr (foldl (\<lambda>w i. projr (tankIteration sc i w)) w is)"
proof -
  have "\<exists>w'. update sc w = Inr w'"
    by (simp add: update_def tankLoop_fold)
  then show ?thesis
    using execute_Inr[of h now g b t con] tankLoop_fold[of sc "is" w]
    by (auto simp: execute_def Let_def)
qed

lemma example_activeTanks: "activeTanks example_world = [0, 1]"
  by (simp add: activeTanks_def example_world_def tank_n_def scenario_tank_def isDead_def upt_rec)

text \<open>
  In the scene of the example the first script throws and the second one still runs in the
  same tick: the tick ends normally, the console has the warning for the first tank, the
  first tank keeps the turn it asked for before throwing, the second tank has its move and
  its brain the trace of it.
\<close>

theorem execute_isolation_witness:
  "\<not> isl (update example_scene example_world) \<and>
   console (projr (update example_scene example_world))
     = [''TankBrain execution error for tank-0: boom''] \<and>
   turnInput (tanks (projr (update example_scene example_world)) ! 0) = 1 \<and>
   moveInput (tanks (projr (update example_scene example_world)) ! 1) = 1 \<and>
   map t_method (lastTrace (the (tankBrains (projr (update example_scene example_world)) ''tank-1'')))
     = [''move()'']"
proof -
  have "update example_scene example_world = tankLoop example_scene [0, 1] example_world"
    by (simp add: update_def example_activeTanks) (simp add: example_world_def)
  also have "\<dots> = Inr (foldl (\<lambda>w i. projr (tankIteration example_scene i w)) example_world [0, 1])"
    using execute_isolation[of example_host 0 "\<lambda>t. Inr []" "brain_of thrower" "tank_n ''tank-0''" "[]"
        example_scene example_world "[0, 1]"]
    by blast
  finally show ?thesis
    by (simp add: example_world_def tankIteration_def brainExecute_def execute_def isValid_def
        brain_of_def tank_n_def thrower_def mover_def example_scene_def Let_def scenario_tank_def
        isDead_def move_api_def turn_api_def trace_def move_def turn_def Clamp_def)
qed

section \<open>The trace of a tick\<close>







section \<open>Generation with retries\<close>

lemma generateBehavior_calls: "snd (generateBehavior sv us calls) \<le> Suc calls"
  by (auto simp: generateBehavior_def Let_def split: ProviderOutcome.splits)

lemma regenerate_calls: "snd (regenerateWithFeedback sv us pc em calls) = Suc calls"
  by (auto simp: regenerateWithFeedback_def Let_def split: ProviderOutcome.splits)

lemma retryLoop_calls: "snd (retryLoop sv us n r lc calls) \<le> calls + n"
proof (induction n arbitrary: r lc calls)
  case 0
  show ?case by simp
next
  case (Suc n)
  show ?case
  proof (cases "g_success r \<or> lc = []")
    case True
    then show ?thesis by auto
  next
    case False
    obtain r' c' where
      rc: "regenerateWithFeedback sv us lc (orElse (g_error r) ''Unknown error'') calls = (r', c')"
      by (cases "regenerateWithFeedback sv us lc (orElse (g_error r) ''Unknown error'') calls")
    then have "c' = Suc calls"
      using regenerate_calls[of sv us lc "orElse (g_error r) ''Unknown error''" calls] by simp
    then show ?thesis using False rc Suc.IH[of r' _ c'] by (simp add: Let_def)
  qed
qed

lemma autoRetry_calls: "snd (generateWithAutoRetry sv us m calls) \<le> calls + 1 + m"
proof -
  obtain r0 c0 where g: "generateBehavior sv us calls = (r0, c0)"
    by (cases "generateBehavior sv us calls")
  then have c0: "c0 \<le> Suc calls" using generateBehavior_calls[of sv us calls] by simp
  let ?lc = "case candidateCode r0 of Some c \<Rightarrow> c | None \<Rightarrow> []"
  obtain r c' where l: "retryLoop sv us m r0 ?lc c0 = (r, c')"
    by (cases "retryLoop sv us m r0 ?lc c0")
  then have "c' \<le> c0 + m" using retryLoop_calls[of sv us m r0 ?lc c0] by simp
  then show ?thesis using g l c0 by (simp add: generateWithAutoRetry_def Let_def)
qed

lemma generateBehavior_rejected:
  assumes "always_rejected sv"
  shows "\<exists>r. generateBehavior sv us calls = (r, Suc calls) \<and> rejected_at sv calls r \<and>
             (\<exists>c. candidateCode r = Some c \<and> c \<noteq> [])"
proof -
  from assms obtain resp where
    resp: "generate sv calls (TANK_API_SYSTEM_PROMPT sv) (buildUserPrompt us) = Resp resp"
      "r_success resp" "truthy (r_content resp)"
      "\<not> valid (validator_validate sv (the (r_content resp)))"
    unfolding always_rejected_def by blast
  then obtain c where c: "r_content resp = Some c" "c \<noteq> []"
    by (auto simp: truthy_def split: option.splits)
  show ?thesis using assms resp c
    by (auto simp: generateBehavior_def always_rejected_def rejected_at_def Let_def
        candidateCode_def truthy_def)
qed

lemma regenerate_rejected:
  assumes "always_rejected sv"
  shows "\<exists>r. regenerateWithFeedback sv us pc em calls = (r, Suc calls) \<and>
             rejected_at sv calls r \<and> (\<exists>c. candidateCode r = Some c \<and> c \<noteq> [])"
proof -
  from assms obtain resp where
    resp: "generate sv calls (TANK_API_SYSTEM_PROMPT sv) (feedbackPrompt us pc em) = Resp resp"
      "r_success resp" "truthy (r_content resp)"
      "\<not> valid (validator_validate sv (the (r_content resp)))"
    unfolding always_rejected_def by blast
  then obtain c where c: "r_content resp = Some c" "c \<noteq> []"
    by (auto simp: truthy_def split: option.splits)
  show ?thesis using assms resp c
    by (auto simp: regenerateWithFeedback_def always_rejected_def rejected_at_def Let_def
        candidateCode_def truthy_def)
qed

text \<open>
  With such a backend every iteration of the loop makes its call: the result it starts from
  is a failure and there is code to show, so neither exit is taken before the budget is
  used up.
\<close>

lemma retryLoop_rejected:
  assumes "always_rejected sv" "rejected_at sv k r" "lc \<noteq> []"
  shows "\<exists>r'. retryLoop sv us n r lc (Suc k) = (r', Suc k + n) \<and> rejected_at sv (k + n) r'"
  using assms(2,3)
proof (induction n arbitrary: r lc k)
  case 0
  then show ?case by simp
next
  case (Suc n)
  from regenerate_rejected[OF assms(1), of us lc "orElse (g_error r) ''Unknown error''" "Suc k"]
  obtain r1 c1 where
    r1: "regenerateWithFeedback sv us lc (orElse (g_error r) ''Unknown error'') (Suc k)
           = (r1, Suc (Suc k))"
      "rejected_at sv (Suc k) r1" "candidateCode r1 = Some c1" "c1 \<noteq> []"
    by blast
  from Suc.IH[OF r1(2) r1(4)] obtain r' where
    "retryLoop sv us n r1 c1 (Suc (Suc k)) = (r', Suc (Suc k) + n)"
    "rejected_at sv (Suc k + n) r'"
    by blast
  moreover have "\<not> g_success r" using Suc.prems by (simp add: rejected_at_def)
  ultimately show ?case using Suc.prems r1 by (simp add: Let_def)
qed

text \<open>
  C9. Whatever the backend does, \<open>generateWithAutoRetry\<close> with the budget \<open>m\<close> calls it at most
  \<open>1 + m\<close> times: the first attempt and at most \<open>m\<close> more. When the backend always returns
  code that fails validation, it makes exactly these \<open>1 + m\<close> calls and returns a failure
  whose message names the count \<open>m\<close> and the last underlying error, which is the joined
  errors of the validation of the answer to the last call.
\<close>

theorem autoRetry_exhausts:
  "snd (generateWithAutoRetry sv us m calls) \<le> calls + 1 + m \<and>
   (always_rejected sv \<longrightarrow>
      (\<exists>r c sp up resp.
         generateWithAutoRetry sv us m 0 = (r, 1 + m) \<and> \<not> g_success r \<and>
         generate sv m sp up = Resp resp \<and> r_content resp = Some c \<and>
         g_error r =
           Some (''Code generation failed after '' @ show_nat m @ '' attempts. Last error: ''
                 @ join newline (errors (validator_validate sv c)))))"
proof (intro conjI impI)
  show "snd (generateWithAutoRetry sv us m calls) \<le> calls + 1 + m"
    by (rule autoRetry_calls)
next
  assume a: "always_rejected sv"
  from generateBehavior_rejected[OF a, of us 0] obtain r0 c0 where
    r0: "generateBehavior sv us 0 = (r0, Suc 0)" "rejected_at sv 0 r0"
      "candidateCode r0 = Some c0" "c0 \<noteq> []"
    by blast
  from retryLoop_rejected[OF a r0(2) r0(4), of us m] obtain r' where
    r': "retryLoop sv us m r0 c0 (Suc 0) = (r', Suc 0 + m)" "rejected_at sv (0 + m) r'"
    by blast
  from r'(2) obtain sp up resp c where
    c: "\<not> g_success r'" "generate sv m sp up = Resp resp" "r_content resp = Some c"
      "g_error r' = Some (join newline (errors (validator_validate sv c)))"
    unfolding rejected_at_def by auto
  have "generateWithAutoRetry sv us m 0 =
      (\<lparr> g_success = False, g_behavior = None,
         g_error = Some (''Code generation failed after '' @ show_nat m
                         @ '' attempts. Last error: '' @ join newline (errors (validator_validate sv c))),
         g_rawResponse = g_rawResponse r' \<rparr>, 1 + m)"
    using r0 r' c by (simp add: generateWithAutoRetry_def Let_def)
  then show "\<exists>r c sp up resp.
         generateWithAutoRetry sv us m 0 = (r, 1 + m) \<and> \<not> g_success r \<and>
         generate sv m sp up = Resp resp \<and> r_content resp = Some c \<and>
         g_error r =
           Some (''Code generation failed after '' @ show_nat m @ '' attempts. Last error: ''
                 @ join newline (errors (validator_validate sv c)))"
    using c(2,3) by auto
qed

lemma rejecting_service_rejected: "always_rejected rejecting_service"
  by (simp add: always_rejected_def rejecting_service_def truthy_def)

text \<open>
  The scenario of the specification: the budget is 3 and the backend's code is always
  rejected. Four calls are made, the first and three more, and the message cites the 3.
\<close>

theorem autoRetry_exhausts_witness:
  "snd (generateWithAutoRetry rejecting_service ''ram the enemy'' 3 0) = 4 \<and>
   \<not> g_success (fst (generateWithAutoRetry rejecting_service ''ram the enemy'' 3 0)) \<and>
   g_error (fst (generateWithAutoRetry rejecting_service ''ram the enemy'' 3 0))
     = Some ''Code generation failed after 3 attempts. Last error: Runtime error: tank.jump is not a function''"
proof -
  from autoRetry_exhausts[of rejecting_service "''ram the enemy''" 3 0] rejecting_service_rejected
  obtain r c sp up resp where
    r: "generateWithAutoRetry rejecting_service ''ram the enemy'' 3 0 = (r, 1 + 3)"
      "\<not> g_success r" "generate rejecting_service 3 sp up = Resp resp" "r_content resp = Some c"
      "g_error r =
         Some (''Code generation failed after '' @ show_nat 3 @ '' attempts. Last error: ''
               @ join newline (errors (validator_validate rejecting_service c)))"
    by blast
  have "show_nat 3 = ''3''" by (simp add: show_nat.simps digit_def)
  moreover have "join newline (errors (validator_validate rejecting_service c))
      = ''Runtime error: tank.jump is not a function''"
    by (simp add: rejecting_service_def)
  ultimately show ?thesis using r by simp
qed

section \<open>Forbidden patterns\<close>

lemma forbidden_sources_distinct: "distinct (map fst FORBIDDEN_PATTERNS)"
  by code_simp

lemma pattern_error_map:
  "map pattern_error xs = map ((@) ''Forbidden pattern detected: '') (map fst xs)"
  by (simp add: pattern_error_def)

lemma pattern_errors_distinct:
  "distinct (map pattern_error (filter P FORBIDDEN_PATTERNS))"
proof -
  have "distinct (map fst (filter P FORBIDDEN_PATTERNS))"
    using forbidden_sources_distinct by (rule distinct_map_filter)
  then have "distinct (map ((@) ''Forbidden pattern detected: '')
      (map fst (filter P FORBIDDEN_PATTERNS)))"
    by (subst distinct_map) (simp add: inj_on_def)
  then show ?thesis by (simp only: pattern_error_map)
qed

text \<open>
  C2. When the cleaned form of the input passes the syntax stage and matches at least one
  forbidden pattern, \<open>validate\<close> returns \<open>valid = false\<close>, and its errors are the errors of
  the matching patterns, all of them, in the order of the list and nothing else: each
  matching pattern has its error, which names the pattern's source, and no two of the errors
  are the same.
\<close>

theorem validate_forbidden:
  assumes "validateSyntax eng (cleanCode raw) = None"
    and "\<exists>pattern \<in> set FORBIDDEN_PATTERNS. rx_test (snd pattern) (cleanCode raw)"
  shows "\<not> valid (validate eng raw) \<and>
         errors (validate eng raw)
           = map pattern_error
               (filter (\<lambda>pattern. rx_test (snd pattern) (cleanCode raw)) FORBIDDEN_PATTERNS) \<and>
         (\<forall>pattern \<in> set FORBIDDEN_PATTERNS. rx_test (snd pattern) (cleanCode raw) \<longrightarrow>
            pattern_error pattern \<in> set (errors (validate eng raw))) \<and>
         distinct (errors (validate eng raw))"
proof -
  let ?f = "filter (\<lambda>pattern. rx_test (snd pattern) (cleanCode raw)) FORBIDDEN_PATTERNS"
  have "?f \<noteq> []" using assms(2) by (auto simp: filter_empty_conv)
  then have e: "errors (validate eng raw) = map pattern_error ?f"
    and v: "\<not> valid (validate eng raw)"
    using assms(1) by (simp_all add: validate_def checkForbiddenPatterns_def Let_def)
  show ?thesis using e v pattern_errors_distinct by auto
qed

lemma scenarioB_clean:
  "cleanCode ''tank.move(1); eval('1+1');'' = ''tank.move(1); eval('1+1');''"
  by code_simp

lemma scenarioB_matches:
  "map fst (filter (\<lambda>pattern. rx_test (snd pattern) ''tank.move(1); eval('1+1');'')
              FORBIDDEN_PATTERNS)
     = [bsl ''beval'' @ bsl ''s*'' @ bsl ''('']"
  by code_simp

lemma two_patterns_clean: "cleanCode ''eval(this);'' = ''eval(this);''"
  by code_simp

lemma two_patterns_matches:
  "map fst (filter (\<lambda>pattern. rx_test (snd pattern) ''eval(this);'') FORBIDDEN_PATTERNS)
     = [bsl ''beval'' @ bsl ''s*'' @ bsl ''('', bsl ''bthis'' @ bsl ''b'']"
  by code_simp

text \<open>
  The scenario of the specification, with one forbidden pattern, and a text with two: the
  errors are the one of \<^verbatim>\<open>eval(\<close>, and those of \<^verbatim>\<open>eval(\<close> and \<^verbatim>\<open>this\<close>.
\<close>

theorem validate_forbidden_witness:
  "\<not> valid (validate lenient_engine ''tank.move(1); eval('1+1');'') \<and>
   errors (validate lenient_engine ''tank.move(1); eval('1+1');'')
     = [''Forbidden pattern detected: '' @ bsl ''beval'' @ bsl ''s*'' @ bsl ''(''] \<and>
   \<not> valid (validate lenient_engine ''eval(this);'') \<and>
   errors (validate lenient_engine ''eval(this);'')
     = [''Forbidden pattern detected: '' @ bsl ''beval'' @ bsl ''s*'' @ bsl ''('',
        ''Forbidden pattern detected: '' @ bsl ''bthis'' @ bsl ''b'']"
proof -
  have s: "validateSyntax lenient_engine c = None" for c
    by (simp add: validateSyntax_def lenient_engine_def)
  let ?b = "''tank.move(1); eval('1+1');''" and ?t = "''eval(this);''"
  have "filter (\<lambda>pattern. rx_test (snd pattern) ?b) FORBIDDEN_PATTERNS \<noteq> []"
    using scenarioB_matches by auto
  then have "\<exists>pattern \<in> set FORBIDDEN_PATTERNS. rx_test (snd pattern) (cleanCode ?b)"
    by (simp add: scenarioB_clean filter_empty_conv)
  from validate_forbidden[OF s this]
  have b: "\<not> valid (validate lenient_engine ?b)"
    "errors (validate lenient_engine ?b)
       = map ((@) ''Forbidden pattern detected: '')
           (map fst (filter (\<lambda>pattern. rx_test (snd pattern) ?b) FORBIDDEN_PATTERNS))"
    by (simp_all add: scenarioB_clean pattern_error_map)
  have "filter (\<lambda>pattern. rx_test (snd pattern) ?t) FORBIDDEN_PATTERNS \<noteq> []"
    using two_patterns_matches by auto
  then have "\<exists>pattern \<in> set FORBIDDEN_PATTERNS. rx_test (snd pattern) (cleanCode ?t)"
    by (simp add: two_patterns_clean filter_empty_conv)
  from validate_forbidden[OF s this]
  have t: "\<not> valid (validate lenient_engine ?t)"
    "errors (validate lenient_engine ?t)
       = map ((@) ''Forbidden pattern detected: '')
           (map fst (filter (\<lambda>pattern. rx_test (snd pattern) ?t) FORBIDDEN_PATTERNS))"
    by (simp_all add: two_patterns_clean pattern_error_map)
  show ?thesis
    using b t unfolding scenarioB_matches two_patterns_matches by simp
qed

section \<open>The cleaner\<close>

text \<open>
  C8, as stated, fails: the cleaner unwraps one function wrapper in a pass, so a wrapper
  inside a wrapper is left by the first pass and removed by the second.
\<close>

lemma nested_wrappers_once: "cleanCode nested_wrappers = ''function b(tank){ tank.move(1); }''"
  unfolding nested_wrappers_def by code_simp

lemma nested_wrappers_twice: "cleanCode ''function b(tank){ tank.move(1); }'' = ''tank.move(1);''"
  by code_simp

theorem cleanCode_idempotent_counterexample:
  "cleanCode (cleanCode nested_wrappers) \<noteq> cleanCode nested_wrappers"
  by (simp add: nested_wrappers_once nested_wrappers_twice)

lemma plainCode_no_quote: "plainCode s \<Longrightarrow> c \<in> set s \<Longrightarrow> \<not> is_quote c"
  by (induction s rule: plainCode.induct) auto

lemma scanComments_plain: "plainCode s \<Longrightarrow> scanComments Code s = s"
  by (induction s rule: plainCode.induct) (auto simp: is_quote_def)

lemma split_lines_nonempty: "split_lines s \<noteq> []"
  by (induction s) (auto split: list.splits)

lemma join_split_lines: "join [CHR 0x0A] (split_lines s) = s"
proof (induction s)
  case Nil
  show ?case by simp
next
  case (Cons c cs)
  obtain l ls where l: "split_lines cs = l # ls"
    using split_lines_nonempty[of cs] by (cases "split_lines cs") auto
  show ?case
  proof (cases "c = CHR 0x0A")
    case True
    then show ?thesis using Cons l by simp
  next
    case False
    then show ?thesis using Cons l by (cases ls) simp_all
  qed
qed

lemma rx_replace_from_no_match:
  "\<not> rx_test_from r p s \<Longrightarrow> rx_replace_from r rep g 0 p s = s"
  by (induction s arbitrary: p) auto

lemma rx_replace_no_match: "\<not> rx_test r s \<Longrightarrow> rx_replace r rep g s = s"
  by (simp add: rx_test_def rx_replace_def rx_replace_from_no_match)

lemma rx_lit_mismatch: "(case s of [] \<Rightarrow> True | b # bs \<Rightarrow> b \<noteq> a) \<Longrightarrow> rx_lit (a # as) (p, s) = []"
  by (cases s) auto

lemma fenceClose_no_backtick:
  assumes "CHR 0x60 \<notin> set s"
  shows "fenceClose (p, s) = []"
proof -
  have a: "rx_lit ''```'' (q, t) = []" if "CHR 0x60 \<notin> set t" for q t
    using that by (cases t) auto
  have "rx_opt (rx_lit [CHR 0x0A]) (p, s) = [(p, s)] \<or>
        (\<exists>t. s = CHR 0x0A # t \<and> rx_opt (rx_lit [CHR 0x0A]) (p, s) = [(Some (CHR 0x0A), t), (p, s)])"
    by (cases s) (auto simp: rx_opt_def)
  then show ?thesis
    using assms a by (auto simp: fenceClose_def rx_seqs_def rx_then_def)
qed

lemma fenceClose_never:
  assumes "CHR 0x60 \<notin> set s"
  shows "\<not> rx_test_from fenceClose p s"
  using assms by (induction s arbitrary: p) (auto simp: fenceClose_no_backtick)

lemma fenceOpen_no_backtick:
  assumes "CHR 0x60 \<notin> set s"
  shows "fenceOpen (None, s) = []"
  using assms by (cases s) (auto simp: fenceOpen_def rx_seqs_def rx_then_def)

lemma length_trimStart: "is_space (hd c) \<Longrightarrow> c \<noteq> [] \<Longrightarrow> length (trimStart c) < length c"
  by (cases c) (auto simp: trimStart_def intro: le_imp_less_Suc length_dropWhile_le)

lemma length_trimEnd_le: "length (trimEnd t) \<le> length t"
  unfolding trimEnd_def using length_dropWhile_le[of is_space "rev t"] by simp

lemma trimmed_head:
  assumes "trim c = c" "c \<noteq> []"
  shows "\<not> is_space (hd c)"
proof
  assume "is_space (hd c)"
  then have "length (trimStart c) < length c" using assms(2) by (rule length_trimStart)
  moreover have "length (trim c) \<le> length (trimStart c)"
    unfolding trim_def by (rule length_trimEnd_le)
  ultimately show False using assms(1) by simp
qed

lemma split_lines_hd:
  assumes "c \<noteq> CHR 0x0A"
  shows "\<exists>l. hd (split_lines (c # cs)) = c # l"
  using assms split_lines_nonempty[of cs] by (cases "split_lines cs") auto

lemma looksLikeCode_nonempty: "looksLikeCode s \<Longrightarrow> s \<noteq> []"
  by (auto simp: looksLikeCode_def startsWith_def)

lemma scanLines_keep:
  assumes "linesStayCode d lines"
    and "inCode \<or> (lines \<noteq> [] \<and> looksLikeCode (trim (hd lines)))"
  shows "scanLines inCode d acc lines = acc @ lines"
  using assms
proof (induction lines arbitrary: inCode d acc)
  case Nil
  then show ?case by simp
next
  case (Cons line rest)
  let ?d' = "d + int (count_char (CHR ''{'') line) - int (count_char (CHR ''}'') line)"
  from Cons.prems(1) have
    p: "\<not> (proseLine (None, trim line) \<noteq> [] \<and> \<not> includes_str (trim line) ''//'' \<and> ?d' = 0)"
    and d: "0 \<le> ?d'" and r: "linesStayCode ?d' rest"
    by (simp_all add: Let_def)
  have i: "inCode \<or> looksLikeCode (trim line)" using Cons.prems(2) by auto
  then have ne: "\<not> (\<not> inCode \<and> trim line = [])" using looksLikeCode_nonempty by auto
  have "scanLines True ?d' (acc @ [line]) rest = (acc @ [line]) @ rest"
    using Cons.IH[OF r, of True] by simp
  then show ?case using p d i ne by (auto simp: Let_def)
qed

lemma count_join:
  assumes "ch \<noteq> CHR 0x0A"
  shows "int (count_char ch (join [CHR 0x0A] (l # ls))) =
         int (count_char ch l) + (if ls = [] then 0 else int (count_char ch (join [CHR 0x0A] ls)))"
  using assms by (cases ls) (auto simp: count_char_def)

lemma linesStayCode_depth:
  assumes "linesStayCode d lines" "lines \<noteq> []"
  shows "0 \<le> d + int (count_char (CHR ''{'') (join [CHR 0x0A] lines))
               - int (count_char (CHR ''}'') (join [CHR 0x0A] lines))"
  using assms
proof (induction lines arbitrary: d)
  case Nil
  then show ?case by simp
next
  case (Cons line rest)
  let ?d' = "d + int (count_char (CHR ''{'') line) - int (count_char (CHR ''}'') line)"
  from Cons.prems(1) have d: "0 \<le> ?d'" and r: "linesStayCode ?d' rest"
    by (simp_all add: Let_def)
  show ?case
  proof (cases "rest = []")
    case True
    then show ?thesis using d by simp
  next
    case False
    from Cons.IH[OF r False] show ?thesis using False by (simp add: count_join)
  qed
qed

lemma dropOrphanBraces_balanced:
  "count_char (CHR ''}'') s \<le> count_char (CHR ''{'') s \<Longrightarrow> dropOrphanBraces s = s"
  by (subst dropOrphanBraces.simps) simp

lemma fold_min_zero:
  "fold (\<lambda>line m. case m of None \<Rightarrow> Some (indentOf line) | Some v \<Rightarrow> Some (min v (indentOf line)))
     xs (Some 0) = Some 0"
  by (induction xs) auto

lemma minIndentOf_zero:
  assumes "trim l \<noteq> []" "indentOf l = 0"
  shows "minIndentOf (l # ls) = Some 0"
  using assms by (simp add: minIndentOf_def fold_min_zero)

text \<open>
  Every step of the cleaner leaves a body that is already clean as it is.
\<close>

lemma cleanCode_fixed:
  assumes "already_clean c"
  shows "cleanCode c = c"
proof -
  from assms have ne: "c \<noteq> []" and t: "trim c = c" and pl: "plainCode c"
    and h: "heresTheCode (None, c) = []"
    and bl: "list_all (\<lambda>line. trim line \<noteq> []) (split_lines c)"
    and w: "rx_capture funcHead funcTail c = None" "rx_capture arrowHead arrowTail c = None"
      "rx_capture pureArrowHead arrowTail c = None"
    and lc: "looksLikeCode (trim (hd (split_lines c)))"
    and st: "linesStayCode 0 (split_lines c)"
    unfolding already_clean_def by blast+
  have nb: "CHR 0x60 \<notin> set c" using plainCode_no_quote[OF pl] by (auto simp: is_quote_def)
  have s1: "rx_replace_start fenceOpen [] c = c"
    by (simp add: rx_replace_start_def fenceOpen_no_backtick[OF nb])
  have s2: "rx_replace fenceClose [] True c = c"
    by (rule rx_replace_no_match) (simp add: rx_test_def fenceClose_never[OF nb])
  have s4: "rx_replace_start heresTheCode [] c = c"
    by (simp add: rx_replace_start_def h)
  have fl: "filter (\<lambda>line. trim line \<noteq> []) (split_lines c) = split_lines c"
    using bl by (simp add: list_all_iff)
  have s6: "stripComments c = c"
    by (simp add: stripComments_def Let_def scanComments_plain[OF pl] fl join_split_lines t)
  have s7: "unwrap funcHead funcTail c = c" "unwrap arrowHead arrowTail c = c"
    "unwrap pureArrowHead arrowTail c = c"
    by (simp_all add: unwrap_def w)
  have s8: "scanLines False 0 [] (split_lines c) = split_lines c"
    using scanLines_keep[OF st, of False "[]"] lc split_lines_nonempty[of c] by simp
  have "0 \<le> 0 + int (count_char (CHR ''{'') (join [CHR 0x0A] (split_lines c)))
               - int (count_char (CHR ''}'') (join [CHR 0x0A] (split_lines c)))"
    by (rule linesStayCode_depth[OF st split_lines_nonempty])
  then have "count_char (CHR ''}'') c \<le> count_char (CHR ''{'') c"
    by (simp add: join_split_lines)
  then have s9: "dropOrphanBraces c = c" by (rule dropOrphanBraces_balanced)
  obtain b bs where c: "c = b # bs" using ne by (cases c) auto
  have "\<not> is_space b" using trimmed_head[OF t ne] c by simp
  moreover then have "b \<noteq> CHR 0x0A" by (auto simp: is_space_def)
  then obtain l where l: "hd (split_lines c) = b # l" using split_lines_hd c by blast
  ultimately have i0: "indentOf (hd (split_lines c)) = 0" by (simp add: indentOf_def)
  obtain l1 ls where sl: "split_lines c = l1 # ls"
    using split_lines_nonempty[of c] by (cases "split_lines c") auto
  have "trim l1 \<noteq> []" using bl sl by simp
  then have s10: "minIndentOf (split_lines c) = Some 0"
    using i0 sl by (simp add: minIndentOf_zero)
  show ?thesis
    using split_lines_nonempty[of c]
    by (simp add: cleanCode_def Let_def t s1 s2 s4 s6 s7 s8 join_split_lines s9 s10)
qed

text \<open>
  C8, amended. The cleaner returns a script body that is already clean unchanged; so
  \<open>cleanCode (cleanCode s) = cleanCode s\<close> for every text \<open>s\<close> whose cleaned form is already
  clean.
\<close>

theorem cleanCode_idempotent_amended:
  "(already_clean c \<longrightarrow> cleanCode c = c) \<and>
   (already_clean (cleanCode s) \<longrightarrow> cleanCode (cleanCode s) = cleanCode s)"
  using cleanCode_fixed[of c] cleanCode_fixed[of "cleanCode s"] by blast

lemma scenarioA_clean: "cleanCode scenarioA_raw = ''tank.move(1);''"
  unfolding scenarioA_raw_def by code_simp

lemma scenarioA_already_clean: "already_clean ''tank.move(1);''"
  by code_simp

lemma small_body_already_clean: "already_clean small_body"
  unfolding small_body_def by code_simp

text \<open>
  The raw text of the first scenario cleans to \<^verbatim>\<open>tank.move(1);\<close>, which is already clean,
  and cleaning it again changes nothing; the body of three statements is already clean and
  the cleaner returns it.
\<close>

theorem cleanCode_idempotent_amended_witness:
  "cleanCode scenarioA_raw = ''tank.move(1);'' \<and>
   cleanCode (cleanCode scenarioA_raw) = cleanCode scenarioA_raw \<and>
   cleanCode small_body = small_body"
proof -
  have "already_clean (cleanCode scenarioA_raw)"
    by (simp only: scenarioA_clean scenarioA_already_clean)
  with cleanCode_idempotent_amended[of small_body scenarioA_raw]
  have "cleanCode (cleanCode scenarioA_raw) = cleanCode scenarioA_raw" by blast
  moreover from cleanCode_idempotent_amended[of small_body scenarioA_raw] small_body_already_clean
  have "cleanCode small_body = small_body" by blast
  ultimately show ?thesis using scenarioA_clean by simp
qed

section \<open>The loop guard\<close>

subsection \<open>The text of a guarded script\<close>



















lemma count_closers:
  "count_char (CHR ''{'') (concat (replicate n '' }'')) = 0 \<and>
   count_char (CHR ''}'') (concat (replicate n '' }'')) = n"
  by (induction n) (simp_all add: count_char_def)


subsection \<open>The run of a guarded loop\<close>





subsection \<open>A loop that the rewriter leaves as it is\<close>








end
